theory Spec2Isabelle
  imports Main
begin

section \<open>JSON values and the Python operations the ledger code applies to them\<close>

text \<open>
  The message records of \<^verbatim>\<open>smsc_simulator.py\<close> and \<^verbatim>\<open>http_server_80.py\<close> are Python
  dictionaries that travel through \<^verbatim>\<open>json.dump\<close> and \<^verbatim>\<open>json.load\<close>. They are modelled as
  JSON values. A \<open>JDict\<close> holds the items of an already parsed dictionary in insertion
  order. JSON numbers are restricted to integers: floating point identifiers are outside
  this model.
\<close>

datatype json =
    JNull
  | JBool bool
  | JInt int
  | JStr string
  | JList "json list"
  | JDict "(string \<times> json) list"

datatype py_error =
  AttributeError | TypeError | IndexError | JSONDecodeError | UnicodeDecodeError

type_synonym py_dict = "(string \<times> json) list"

text \<open>\<^verbatim>\<open>d.get(k, default)\<close> on a dictionary.\<close>

definition dict_get :: "py_dict \<Rightarrow> string \<Rightarrow> json \<Rightarrow> json" where
  "dict_get d k dflt = (case map_of d k of None \<Rightarrow> dflt | Some v \<Rightarrow> v)"

text \<open>
  \<^verbatim>\<open>msg.get(k)\<close> on an arbitrary parsed value: only a dictionary has the method, every
  other value raises \<^verbatim>\<open>AttributeError\<close>. A missing key gives \<^verbatim>\<open>None\<close>.
\<close>

fun msg_get :: "json \<Rightarrow> string \<Rightarrow> py_error + json" where
  "msg_get (JDict d) k = Inr (dict_get d k JNull)"
| "msg_get _ k = Inl AttributeError"

text \<open>
  Membership in a Python set goes through hashing and equality. Lists and dictionaries are
  unhashable (\<^verbatim>\<open>TypeError\<close>); \<^verbatim>\<open>True == 1\<close> and \<^verbatim>\<open>False == 0\<close>; values of different
  kinds are otherwise different. A \<open>pykey\<close> is the equality class of a hashable value.
\<close>

datatype pykey = KNone | KNum int | KStr string

fun py_hash_key :: "json \<Rightarrow> py_error + pykey" where
  "py_hash_key JNull = Inr KNone"
| "py_hash_key (JBool b) = Inr (KNum (if b then 1 else 0))"
| "py_hash_key (JInt i) = Inr (KNum i)"
| "py_hash_key (JStr s) = Inr (KStr s)"
| "py_hash_key (JList xs) = Inl TypeError"
| "py_hash_key (JDict d) = Inl TypeError"

text \<open>The key under which \<^verbatim>\<open>msg.get('id')\<close> enters or is looked up in \<^verbatim>\<open>existing_ids\<close>.\<close>

definition msg_id_key :: "json \<Rightarrow> py_error + pykey" where
  "msg_id_key msg = (case msg_get msg ''id'' of Inl e \<Rightarrow> Inl e | Inr v \<Rightarrow> py_hash_key v)"

text \<open>
  \<^verbatim>\<open>for msg in shared_messages\<close>: a list yields its elements, a dictionary its keys, a
  string its characters; \<^verbatim>\<open>None\<close>, booleans and numbers are not iterable.
\<close>

fun py_iter :: "json \<Rightarrow> py_error + json list" where
  "py_iter (JList xs) = Inr xs"
| "py_iter (JDict d) = Inr (map (\<lambda>kv. JStr (fst kv)) d)"
| "py_iter (JStr s) = Inr (map (\<lambda>c. JStr [c]) s)"
| "py_iter _ = Inl TypeError"

text \<open>\<^verbatim>\<open>xs[-100:]\<close>\<close>

definition last100 :: "'a list \<Rightarrow> 'a list" where
  "last100 xs = drop (length xs - 100) xs"

section \<open>The shared store and the handler state\<close>

text \<open>
  \<^verbatim>\<open>shared_messages.json\<close> as a reader finds it: the file is absent (\<open>None\<close>), or
  holds text that \<^verbatim>\<open>json.load\<close> rejects with \<^verbatim>\<open>JSONDecodeError\<close> (\<open>Corrupt\<close>), or
  bytes for which opening or reading raises another exception, such as
  \<^verbatim>\<open>UnicodeDecodeError\<close> (\<open>Unreadable\<close>), or text that parses to a value (\<open>Doc\<close>).
  Writing a value completely and reading it back gives the same value.
\<close>

datatype file_content = Corrupt | Unreadable | Doc json

text \<open>
  What the next \<^verbatim>\<open>with open(shared_file, 'w') as f: json.dump(...)\<close> does. It completes;
  or \<^verbatim>\<open>open\<close> raises and the file stays as it was; or \<^verbatim>\<open>open\<close> succeeds, which
  truncates the file, and the write raises before it is done (a full disk), leaving in the
  file whatever the system kept of it (\<open>Interrupted left\<close>).
\<close>

datatype write_outcome = Completes | OpenRaises | Interrupted file_content

record shared_store =
  content :: "file_content option"
  on_write :: write_outcome

text \<open>The three lines that write the file back, shared by both routines.\<close>

definition write_back :: "json \<Rightarrow> shared_store \<Rightarrow> shared_store" where
  "write_back data fs =
     (case on_write fs of
        Completes \<Rightarrow> fs\<lparr>content := Some (Doc data)\<rparr>
      | OpenRaises \<Rightarrow> fs
      | Interrupted left \<Rightarrow> fs\<lparr>content := Some left\<rparr>)"

text \<open>The fields of \<^verbatim>\<open>SMSHandler\<close> in \<^verbatim>\<open>smsc_simulator.py\<close>.\<close>

record sms_handler =
  message_counter :: int
  processed_messages :: "json list"
  successful_messages :: int
  failed_messages :: int
  start_time :: string

definition SMSHandler_init :: "string \<Rightarrow> sms_handler" where
  "SMSHandler_init now =
     \<lparr>message_counter = 0, processed_messages = [], successful_messages = 0,
      failed_messages = 0, start_time = now\<rparr>"

section \<open>Reconciliation: \<^verbatim>\<open>SMSHandler.load_shared_messages\<close>\<close>

text \<open>
  \<^verbatim>\<open>existing_ids = {msg.get('id') for msg in self.processed_messages}\<close>, as the list of
  keys in view order; the comprehension raises at the first entry that is no dictionary
  or whose id is unhashable.
\<close>

fun collect_ids :: "json list \<Rightarrow> py_error + pykey list" where
  "collect_ids [] = Inr []"
| "collect_ids (msg # rest) =
     (case msg_id_key msg of
        Inl e \<Rightarrow> Inl e
      | Inr k \<Rightarrow> (case collect_ids rest of Inl e \<Rightarrow> Inl e | Inr ks \<Rightarrow> Inr (k # ks)))"

text \<open>
  The loop \<^verbatim>\<open>for msg in shared_messages: if msg.get('id') not in existing_ids:
  self.processed_messages.append(msg)\<close>. The view is mutated in place, so an exception
  in the middle leaves the records appended so far; \<open>existing_ids\<close> is not updated by
  the loop.
\<close>

fun merge_loop :: "pykey list \<Rightarrow> json list \<Rightarrow> json list \<Rightarrow> json list \<times> py_error option" where
  "merge_loop existing_ids [] view = (view, None)"
| "merge_loop existing_ids (msg # rest) view =
     (case msg_id_key msg of
        Inl e \<Rightarrow> (view, Some e)
      | Inr k \<Rightarrow> merge_loop existing_ids rest
                  (if k \<notin> set existing_ids then view @ [msg] else view))"

text \<open>
  The body of the \<^verbatim>\<open>try\<close> block up to the end of the loop: the view it leaves, and
  whether control reaches the cap check that follows the loop (the file exists and nothing
  was raised).
\<close>

definition merge_shared_messages :: "sms_handler \<Rightarrow> shared_store \<Rightarrow> json list \<times> bool" where
  "merge_shared_messages h fs =
     (case content fs of
        None \<Rightarrow> (processed_messages h, False)
      | Some Corrupt \<Rightarrow> (processed_messages h, False)
      | Some Unreadable \<Rightarrow> (processed_messages h, False)
      | Some (Doc shared_messages) \<Rightarrow>
          (case collect_ids (processed_messages h) of
             Inl e \<Rightarrow> (processed_messages h, False)
           | Inr existing_ids \<Rightarrow>
               (case py_iter shared_messages of
                  Inl e \<Rightarrow> (processed_messages h, False)
                | Inr msgs \<Rightarrow>
                    (case merge_loop existing_ids msgs (processed_messages h) of
                       (view, None) \<Rightarrow> (view, True)
                     | (view, Some e) \<Rightarrow> (view, False)))))"

definition load_shared_messages :: "sms_handler \<Rightarrow> shared_store \<Rightarrow> sms_handler" where
  "load_shared_messages h fs =
     (case merge_shared_messages h fs of
        (view, reached_cap) \<Rightarrow>
          h\<lparr>processed_messages :=
              (if reached_cap \<and> 100 < length view then last100 view else view)\<rparr>)"

section \<open>Persisting a record: the two \<^verbatim>\<open>_save_message_to_shared_file\<close> routines\<close>

text \<open>
  \<^verbatim>\<open>smsc_simulator.SMSHandler._save_message_to_shared_file\<close>: the file holds a bare list.
  The inner bare \<^verbatim>\<open>except\<close> turns every failed read into the empty list;
  \<^verbatim>\<open>messages.append\<close> raises when the parsed value is no list, before the file is
  opened for writing. The outer \<^verbatim>\<open>except\<close> swallows that and every failure of the write,
  and only logs: after an interrupted write the file stays as the write left it.
\<close>

definition save_message_to_shared_file :: "json \<Rightarrow> shared_store \<Rightarrow> shared_store" where
  "save_message_to_shared_file message_data fs =
     (let messages = (case content fs of
                        None \<Rightarrow> JList []
                      | Some Corrupt \<Rightarrow> JList []
                      | Some Unreadable \<Rightarrow> JList []
                      | Some (Doc parsed) \<Rightarrow> parsed)
      in case messages of
           JList ms \<Rightarrow>
             (let ms1 = ms @ [message_data];
                  ms2 = (if 100 < length ms1 then last100 ms1 else ms1)
              in write_back (JList ms2) fs)
         | _ \<Rightarrow> fs)"

text \<open>
  \<^verbatim>\<open>http_server_80.SMSHandler._save_message_to_shared_file\<close>: the file holds a dictionary
  with the keys \<^verbatim>\<open>messages\<close>, \<^verbatim>\<open>total_count\<close> and \<^verbatim>\<open>last_updated\<close>. The inner
  \<^verbatim>\<open>except\<close> catches \<^verbatim>\<open>JSONDecodeError\<close> and \<^verbatim>\<open>KeyError\<close> only, so \<^verbatim>\<open>data.get\<close> on a
  parsed value that is no dictionary, and a read that raises anything else (\<open>Unreadable\<close>),
  reach the outer \<^verbatim>\<open>except\<close>, which logs and returns without writing. A failure of the
  write itself ends there too.
\<close>

definition http80_save_message_to_shared_file ::
    "json \<Rightarrow> string \<Rightarrow> shared_store \<Rightarrow> shared_store" where
  "http80_save_message_to_shared_file message now fs =
     (let loaded = (case content fs of
                      None \<Rightarrow> Inr (JList [])
                    | Some Corrupt \<Rightarrow> Inr (JList [])
                    | Some Unreadable \<Rightarrow> Inl UnicodeDecodeError
                    | Some (Doc (JDict d)) \<Rightarrow> Inr (dict_get d ''messages'' (JList []))
                    | Some (Doc _) \<Rightarrow> Inl AttributeError)
      in case loaded of
           Inr (JList ms) \<Rightarrow>
             (let ms1 = ms @ [message];
                  ms2 = (if 100 < length ms1 then last100 ms1 else ms1);
                  data = JDict [(''messages'', JList ms2),
                                (''total_count'', JInt (int (length ms2))),
                                (''last_updated'', JStr now)]
              in write_back data fs)
         | _ \<Rightarrow> fs)"

section \<open>The operations of \<^verbatim>\<open>SMSHandler\<close>\<close>

text \<open>
  One call may read the clock more than once (\<^verbatim>\<open>datetime.now().isoformat()\<close>); the model
  passes the reading in as \<open>now\<close> and uses it for every timestamp of that call.
\<close>

text \<open>
  \<^verbatim>\<open>process_sms\<close>: the dictionaries \<^verbatim>\<open>response\<close> and \<^verbatim>\<open>message_data\<close> it builds, then
  the function, which returns the updated handler and the response.
\<close>

definition process_sms_response :: "int \<Rightarrow> py_dict \<Rightarrow> string \<Rightarrow> string \<Rightarrow> py_dict" where
  "process_sms_response counter apdu_data msisdn now =
     [(''message_id'', JInt counter),
      (''status'', JStr ''received''),
      (''msisdn'', JStr msisdn),
      (''apdu_info'', JDict apdu_data),
      (''processed_at'', JStr now),
      (''response_code'', JStr ''00'')]"

definition process_sms_message_data ::
    "py_dict \<Rightarrow> int \<Rightarrow> py_dict \<Rightarrow> string \<Rightarrow> string \<Rightarrow> json" where
  "process_sms_message_data response counter apdu_data msisdn now =
     JDict [(''id'', JInt counter),
            (''msisdn'', JStr msisdn),
            (''timestamp'', JStr now),
            (''status'', JStr (if dict_get response ''response_code'' JNull = JStr ''00''
                               then ''success'' else ''failed'')),
            (''apdu_info'', JDict apdu_data),
            (''apdu_hex'', dict_get apdu_data ''raw_data'' (JStr [])),
            (''direction'', JStr ''received'')]"

definition process_sms :: "sms_handler \<Rightarrow> py_dict \<Rightarrow> string \<Rightarrow> string \<Rightarrow> sms_handler \<times> py_dict" where
  "process_sms h apdu_data msisdn now =
     (let counter = message_counter h + 1;
          response = process_sms_response counter apdu_data msisdn now;
          message_data = process_sms_message_data response counter apdu_data msisdn now;
          appended = processed_messages h @ [message_data];
          code_ok = (dict_get response ''response_code'' JNull = JStr ''00'')
      in (h\<lparr>message_counter := counter,
             processed_messages := (if 100 < length appended then tl appended else appended),
             successful_messages :=
               (if code_ok then successful_messages h + 1 else successful_messages h),
             failed_messages :=
               (if code_ok then failed_messages h else failed_messages h + 1)\<rparr>,
          response))"

text \<open>
  \<^verbatim>\<open>get_statistics\<close>, without \<^verbatim>\<open>uptime_seconds\<close> and \<^verbatim>\<open>messages_per_minute\<close>, which are
  clock differences and a rounded float.
\<close>

definition get_statistics :: "sms_handler \<Rightarrow> py_dict" where
  "get_statistics h =
     (let last_processed = (if processed_messages h = [] then JNull
                            else last (processed_messages h));
          last_message_time = (case last_processed of
                                 JDict d \<Rightarrow> dict_get d ''timestamp'' JNull
                               | _ \<Rightarrow> JNull)
      in [(''total_messages'', JInt (message_counter h)),
          (''successful_messages'', JInt (successful_messages h)),
          (''failed_messages'', JInt (failed_messages h)),
          (''last_processed'', last_processed),
          (''last_message_time'', last_message_time),
          (''start_time'', JStr (start_time h))])"

definition clear_messages :: "sms_handler \<Rightarrow> sms_handler" where
  "clear_messages h =
     h\<lparr>processed_messages := [], message_counter := 0,
       successful_messages := 0, failed_messages := 0\<rparr>"

definition reset_statistics :: "sms_handler \<Rightarrow> string \<Rightarrow> sms_handler" where
  "reset_statistics h now =
     h\<lparr>processed_messages := [], message_counter := 0,
       successful_messages := 0, failed_messages := 0, start_time := now\<rparr>"

text \<open>
  \<^verbatim>\<open>add_message\<close>: the dictionary \<^verbatim>\<open>message_data\<close>, then the function. The record is
  appended to the local view and counted before the store is touched; the result is the
  handler, the store and the record.
\<close>

definition add_message_data :: "int \<Rightarrow> py_dict \<Rightarrow> string \<Rightarrow> json" where
  "add_message_data counter sms_data now =
     JDict [(''id'', JInt counter),
            (''timestamp'', dict_get sms_data ''timestamp'' (JStr now)),
            (''status'', JStr ''success''),
            (''source'', dict_get sms_data ''source'' (JStr ''http'')),
            (''format'', dict_get sms_data ''format'' (JStr ''unknown'')),
            (''raw_data'', dict_get sms_data ''raw_data'' (JStr [])),
            (''user_data'', dict_get sms_data ''user_data'' (JStr [])),
            (''destination_address'', dict_get sms_data ''destination_address'' (JStr [])),
            (''protocol_identifier'', dict_get sms_data ''protocol_identifier'' (JStr [])),
            (''data_coding_scheme'', dict_get sms_data ''data_coding_scheme'' (JStr [])),
            (''query_params'', dict_get sms_data ''query_params'' (JDict [])),
            (''direction'', JStr ''received'')]"

definition add_message ::
    "sms_handler \<Rightarrow> shared_store \<Rightarrow> py_dict \<Rightarrow> string \<Rightarrow> sms_handler \<times> shared_store \<times> json" where
  "add_message h fs sms_data now =
     (let counter = message_counter h + 1;
          message_data = add_message_data counter sms_data now;
          appended = processed_messages h @ [message_data]
      in (h\<lparr>message_counter := counter,
             processed_messages := (if 100 < length appended then tl appended else appended),
             successful_messages := successful_messages h + 1\<rparr>,
          save_message_to_shared_file message_data fs,
          message_data))"

text \<open>Decimal digits of a Python integer, for the f-string in \<^verbatim>\<open>simulate_outgoing_message\<close>.\<close>

definition digit_char :: "nat \<Rightarrow> char" where
  "digit_char d = char_of (48 + d)"

function str_nat :: "nat \<Rightarrow> string" where
  "str_nat n = (if n < 10 then [digit_char n] else str_nat (n div 10) @ [digit_char (n mod 10)])"
  by pat_completeness auto
termination
  by (relation "measure id") auto

definition str_int :: "int \<Rightarrow> string" where
  "str_int i = (if i < 0 then CHR ''-'' # str_nat (nat (- i)) else str_nat (nat i))"

definition outgoing_message_data :: "int \<Rightarrow> string \<Rightarrow> string \<Rightarrow> string \<Rightarrow> json" where
  "outgoing_message_data counter destination_msisdn message_text now =
     JDict [(''id'', JInt counter),
            (''timestamp'', JStr now),
            (''status'', JStr ''success''),
            (''source'', JStr ''simulator''),
            (''format'', JStr ''outgoing_simulation''),
            (''raw_data'', JStr (''SIMULATED_OUTGOING_'' @ str_int counter)),
            (''user_data'', JStr message_text),
            (''destination_address'', JStr destination_msisdn),
            (''protocol_identifier'', JStr ''00''),
            (''data_coding_scheme'', JStr ''00''),
            (''query_params'', JDict []),
            (''direction'', JStr ''sent'')]"

definition simulate_outgoing_message ::
    "sms_handler \<Rightarrow> shared_store \<Rightarrow> string \<Rightarrow> string \<Rightarrow> string
       \<Rightarrow> sms_handler \<times> shared_store \<times> json" where
  "simulate_outgoing_message h fs destination_msisdn message_text now =
     (let counter = message_counter h + 1;
          message_data = outgoing_message_data counter destination_msisdn message_text now;
          appended = processed_messages h @ [message_data]
      in (h\<lparr>message_counter := counter,
             processed_messages := (if 100 < length appended then tl appended else appended),
             successful_messages := successful_messages h + 1\<rparr>,
          save_message_to_shared_file message_data fs,
          message_data))"

section \<open>Runs of one listener process next to its siblings\<close>

text \<open>
  What can happen to one handler and the shared file: the handler's own operations, and a
  sibling process replacing the file (\<open>SiblingWrite\<close>, any content).
\<close>

datatype op =
    ProcessSms py_dict string string
  | AddMessage py_dict string
  | SimulateOutgoing string string string
  | ClearMessages
  | ResetStatistics string
  | LoadSharedMessages
  | SiblingWrite shared_store

fun step :: "sms_handler \<times> shared_store \<Rightarrow> op \<Rightarrow> sms_handler \<times> shared_store" where
  "step (h, fs) (ProcessSms apdu_data msisdn now) = (fst (process_sms h apdu_data msisdn now), fs)"
| "step (h, fs) (AddMessage sms_data now) =
     (case add_message h fs sms_data now of (h1, fs1, message_data) \<Rightarrow> (h1, fs1))"
| "step (h, fs) (SimulateOutgoing destination_msisdn message_text now) =
     (case simulate_outgoing_message h fs destination_msisdn message_text now of
        (h1, fs1, message_data) \<Rightarrow> (h1, fs1))"
| "step (h, fs) ClearMessages = (clear_messages h, fs)"
| "step (h, fs) (ResetStatistics now) = (reset_statistics h now, fs)"
| "step (h, fs) LoadSharedMessages = (load_shared_messages h fs, fs)"
| "step (h, fs) (SiblingWrite fs1) = (h, fs1)"

definition run :: "op list \<Rightarrow> sms_handler \<times> shared_store \<Rightarrow> sms_handler \<times> shared_store" where
  "run ops s = foldl step s ops"

fun is_append :: "op \<Rightarrow> bool" where
  "is_append (ProcessSms apdu_data msisdn now) = True"
| "is_append (AddMessage sms_data now) = True"
| "is_append (SimulateOutgoing destination_msisdn message_text now) = True"
| "is_append _ = False"

fun is_reconcile :: "op \<Rightarrow> bool" where
  "is_reconcile LoadSharedMessages = True"
| "is_reconcile _ = False"

text \<open>
  The record that the \<open>n\<close>-th ingestion of a process creates: the \<^verbatim>\<open>message_data\<close> of the
  operation, built with the counter value \<open>n\<close>.
\<close>

fun new_record :: "op \<Rightarrow> int \<Rightarrow> json" where
  "new_record (ProcessSms apdu_data msisdn now) n =
     process_sms_message_data (process_sms_response n apdu_data msisdn now) n apdu_data msisdn now"
| "new_record (AddMessage sms_data now) n = add_message_data n sms_data now"
| "new_record (SimulateOutgoing destination_msisdn message_text now) n =
     outgoing_message_data n destination_msisdn message_text now"
| "new_record _ n = JNull"

definition new_records :: "int \<Rightarrow> op list \<Rightarrow> json list" where
  "new_records counter ops =
     map (\<lambda>p. new_record (snd p) (counter + 1 + int (fst p))) (enumerate 0 ops)"

section \<open>The request handlers that reach the ledger\<close>

text \<open>
  A handler receives the dictionary that \<^verbatim>\<open>urllib.parse.parse_qs\<close> made of the query
  string: parameter name to list of values. \<^verbatim>\<open>query_params.get(k, default)[0]\<close> raises
  \<^verbatim>\<open>IndexError\<close> on an empty list (\<open>None\<close> here). \<^verbatim>\<open>urllib.parse.unquote\<close> and the
  injected \<^verbatim>\<open>apdu_parser\<close> are library and collaborator code: they are parameters.
\<close>

type_synonym query = "(string \<times> string list) list"

record http_response =
  status_code :: int
  body :: json

definition query_first :: "query \<Rightarrow> string \<Rightarrow> string list \<Rightarrow> string option" where
  "query_first query_params k dflt =
     (case (case map_of query_params k of None \<Rightarrow> dflt | Some vs \<Rightarrow> vs) of
        [] \<Rightarrow> None
      | v # _ \<Rightarrow> Some v)"

definition send_json_response :: "int \<Rightarrow> json \<Rightarrow> http_response" where
  "send_json_response code data = \<lparr>status_code = code, body = data\<rparr>"

definition send_error_response :: "int \<Rightarrow> string \<Rightarrow> string \<Rightarrow> http_response" where
  "send_error_response code message now =
     \<lparr>status_code = code,
      body = JDict [(''error'', JBool True),
                    (''message'', JStr message),
                    (''status_code'', JInt code),
                    (''timestamp'', JStr now)]\<rparr>"

text \<open>
  \<^verbatim>\<open>SMSCRequestHandler._handle_sms_request\<close>. It has no \<^verbatim>\<open>try\<close> of its own: an
  \<^verbatim>\<open>IndexError\<close> propagates to \<^verbatim>\<open>do_GET\<close>/\<^verbatim>\<open>do_POST\<close> (\<open>Inl\<close>).
\<close>

definition handle_sms_request ::
    "(string \<Rightarrow> py_dict) \<Rightarrow> sms_handler \<Rightarrow> query \<Rightarrow> string
       \<Rightarrow> py_error + (sms_handler \<times> http_response)" where
  "handle_sms_request parse_hex_string h query_params now =
     (case query_first query_params ''submit'' [[]] of
        None \<Rightarrow> Inl IndexError
      | Some submit_data \<Rightarrow>
          (case query_first query_params ''MSISDN'' [[]] of
             None \<Rightarrow> Inl IndexError
           | Some msisdn \<Rightarrow>
               (if submit_data \<noteq> [] then
                  (let apdu_info = parse_hex_string submit_data
                   in case process_sms h apdu_info msisdn now of
                        (h1, sms_response) \<Rightarrow>
                          Inr (h1, send_json_response 200
                                 (JDict [(''status'', JStr ''OK''),
                                         (''message'', JStr ''SMS received and processed''),
                                         (''message_id'', dict_get sms_response ''message_id'' JNull),
                                         (''response_code'', JStr ''00'')])))
                else Inr (h, send_error_response 400 ''Missing submit parameter'' now))))"

text \<open>The five recognised parameters as \<^verbatim>\<open>_handle_sms_request_port80\<close> extracts them.\<close>

definition extract_sms_parameters ::
    "(string \<Rightarrow> string) \<Rightarrow> query \<Rightarrow> (string \<times> string \<times> string \<times> string \<times> string) option" where
  "extract_sms_parameters unquote query_params =
     (case query_first query_params ''submit'' [[]] of
        None \<Rightarrow> None
      | Some submit_data \<Rightarrow>
     (case query_first query_params ''sms_submit_ud'' [[]] of
        None \<Rightarrow> None
      | Some sms_submit_ud \<Rightarrow>
     (case query_first query_params ''sms_submit_da'' [[]] of
        None \<Rightarrow> None
      | Some sms_submit_da \<Rightarrow>
     (case query_first query_params ''sms_submit_pid'' [[]] of
        None \<Rightarrow> None
      | Some sms_submit_pid \<Rightarrow>
     (case query_first query_params ''sms_submit_dcs'' [[]] of
        None \<Rightarrow> None
      | Some sms_submit_dcs \<Rightarrow>
          Some (if submit_data \<noteq> [] then unquote submit_data else [],
                sms_submit_ud, sms_submit_da, sms_submit_pid, sms_submit_dcs))))))"

text \<open>\<^verbatim>\<open>any([...])\<close> on a list of strings: some string is non-empty.\<close>

definition py_any :: "string list \<Rightarrow> bool" where
  "py_any xs = list_ex (\<lambda>s. s \<noteq> []) xs"

text \<open>\<^verbatim>\<open>dict(query_params)\<close> as it is stored in the record.\<close>

definition query_json :: "query \<Rightarrow> json" where
  "query_json query_params = JDict (map (\<lambda>kv. (fst kv, JList (map JStr (snd kv)))) query_params)"

text \<open>
  \<^verbatim>\<open>SMSCRequestHandler._handle_sms_request_port80\<close>: the dictionary \<^verbatim>\<open>sms_data\<close> handed
  to \<^verbatim>\<open>add_message\<close>, the success response, then the handler. The \<^verbatim>\<open>except\<close> clause
  answers 500 with \<^verbatim>\<open>str(e)\<close>, which for the only exception the body can raise is
  \<^verbatim>\<open>list index out of range\<close>.
\<close>

definition port80_sms_data ::
    "string \<Rightarrow> string \<Rightarrow> string \<Rightarrow> string \<Rightarrow> string \<Rightarrow> query \<Rightarrow> string \<Rightarrow> py_dict" where
  "port80_sms_data sms_submit sms_submit_ud sms_submit_da sms_submit_pid sms_submit_dcs
       query_params now =
     [(''raw_data'', JStr sms_submit),
      (''user_data'', JStr sms_submit_ud),
      (''destination_address'', JStr sms_submit_da),
      (''protocol_identifier'', JStr sms_submit_pid),
      (''data_coding_scheme'', JStr sms_submit_dcs),
      (''timestamp'', JStr now),
      (''source'', JStr ''port_80_simulation''),
      (''format'', JStr ''sms_submit_variables''),
      (''query_params'', query_json query_params)]"

definition port80_success_response ::
    "string \<Rightarrow> string \<Rightarrow> string \<Rightarrow> string \<Rightarrow> string \<Rightarrow> string \<Rightarrow> http_response" where
  "port80_success_response sms_submit sms_submit_ud sms_submit_da sms_submit_pid sms_submit_dcs now =
     send_json_response 200
       (JDict [(''status'', JStr ''success''),
               (''message'', JStr ''SMS received and processed successfully''),
               (''timestamp'', JStr now),
               (''processed_parameters'',
                  JDict [(''sms_submit'', JBool (sms_submit \<noteq> [])),
                         (''sms_submit_ud'', JBool (sms_submit_ud \<noteq> [])),
                         (''sms_submit_da'', JBool (sms_submit_da \<noteq> [])),
                         (''sms_submit_pid'', JBool (sms_submit_pid \<noteq> [])),
                         (''sms_submit_dcs'', JBool (sms_submit_dcs \<noteq> []))])])"

definition handle_sms_request_port80 ::
    "(string \<Rightarrow> string) \<Rightarrow> sms_handler \<Rightarrow> shared_store \<Rightarrow> query \<Rightarrow> string
       \<Rightarrow> sms_handler \<times> shared_store \<times> http_response" where
  "handle_sms_request_port80 unquote h fs query_params now =
     (case extract_sms_parameters unquote query_params of
        None \<Rightarrow>
          (h, fs, send_error_response 500 ''Error processing SMS: list index out of range'' now)
      | Some (sms_submit, sms_submit_ud, sms_submit_da, sms_submit_pid, sms_submit_dcs) \<Rightarrow>
          (if \<not> py_any [sms_submit, sms_submit_ud, sms_submit_da, sms_submit_pid, sms_submit_dcs]
           then (h, fs, send_error_response 400 ''Missing SMS parameters'' now)
           else
             (let sms_data = port80_sms_data sms_submit sms_submit_ud sms_submit_da
                               sms_submit_pid sms_submit_dcs query_params now
              in case add_message h fs sms_data now of
                   (h1, fs1, message_data) \<Rightarrow>
                     (h1, fs1,
                      port80_success_response sms_submit sms_submit_ud sms_submit_da
                        sms_submit_pid sms_submit_dcs now))))"

text \<open>
  The listener that \<^verbatim>\<open>create_http_handler_class\<close> builds for port 80
  (\<^verbatim>\<open>HTTPRequestHandler\<close>). Its \<^verbatim>\<open>_handle_sms_submit_request\<close> repeats the body of
  \<^verbatim>\<open>_handle_sms_request_port80\<close> with another source tag and two more keys in
  \<^verbatim>\<open>sms_data\<close> when \<^verbatim>\<open>submit\<close> is populated (\<^verbatim>\<open>len\<close> counts the characters of the
  string).
\<close>

definition http_sms_data ::
    "string \<Rightarrow> string \<Rightarrow> string \<Rightarrow> string \<Rightarrow> string \<Rightarrow> query \<Rightarrow> string \<Rightarrow> py_dict" where
  "http_sms_data sms_submit sms_submit_ud sms_submit_da sms_submit_pid sms_submit_dcs
       query_params now =
     [(''raw_data'', JStr sms_submit),
      (''user_data'', JStr sms_submit_ud),
      (''destination_address'', JStr sms_submit_da),
      (''protocol_identifier'', JStr sms_submit_pid),
      (''data_coding_scheme'', JStr sms_submit_dcs),
      (''timestamp'', JStr now),
      (''source'', JStr ''http_port_80''),
      (''format'', JStr ''sms_submit_variables''),
      (''query_params'', query_json query_params)]
     @ (if sms_submit \<noteq> []
        then [(''message_length'', JInt (int (length sms_submit))),
              (''has_full_message'', JBool True)]
        else [])"

definition handle_sms_submit_request ::
    "(string \<Rightarrow> string) \<Rightarrow> sms_handler \<Rightarrow> shared_store \<Rightarrow> query \<Rightarrow> string
       \<Rightarrow> sms_handler \<times> shared_store \<times> http_response" where
  "handle_sms_submit_request unquote h fs query_params now =
     (case extract_sms_parameters unquote query_params of
        None \<Rightarrow>
          (h, fs, send_error_response 500 ''Error processing SMS: list index out of range'' now)
      | Some (sms_submit, sms_submit_ud, sms_submit_da, sms_submit_pid, sms_submit_dcs) \<Rightarrow>
          (if \<not> py_any [sms_submit, sms_submit_ud, sms_submit_da, sms_submit_pid, sms_submit_dcs]
           then (h, fs, send_error_response 400 ''Missing SMS parameters'' now)
           else
             (let sms_data = http_sms_data sms_submit sms_submit_ud sms_submit_da
                               sms_submit_pid sms_submit_dcs query_params now
              in case add_message h fs sms_data now of
                   (h1, fs1, message_data) \<Rightarrow>
                     (h1, fs1,
                      port80_success_response sms_submit sms_submit_ud sms_submit_da
                        sms_submit_pid sms_submit_dcs now))))"

text \<open>\<^verbatim>\<open>_handle_status_request\<close>\<close>

definition handle_status_request :: "string \<Rightarrow> http_response" where
  "handle_status_request now =
     send_json_response 200
       (JDict [(''status'', JStr ''running''),
               (''service'', JStr ''SMSC Simulator''),
               (''version'', JStr ''1.0.0''),
               (''timestamp'', JStr now)])"

text \<open>\<^verbatim>\<open>s.startswith(p)\<close>\<close>

definition startswith :: "string \<Rightarrow> string \<Rightarrow> bool" where
  "startswith s p \<longleftrightarrow> take (length p) s = p"

text \<open>
  \<^verbatim>\<open>HTTPRequestHandler.do_GET\<close>. \<open>path\<close> is \<^verbatim>\<open>self.path\<close>, the request target with its
  query string, and \<open>query_params\<close> is what \<^verbatim>\<open>parse_qs\<close> makes of that query string.
\<close>

definition http_do_GET ::
    "(string \<Rightarrow> string) \<Rightarrow> sms_handler \<Rightarrow> shared_store \<Rightarrow> string \<Rightarrow> query \<Rightarrow> string
       \<Rightarrow> sms_handler \<times> shared_store \<times> http_response" where
  "http_do_GET unquote h fs path query_params now =
     (if startswith path ''/cgi-bin/smshandler.pl''
      then handle_sms_submit_request unquote h fs query_params now
      else if path = ''/status'' then (h, fs, handle_status_request now)
      else (h, fs, send_error_response 404 ''Endpoint not found'' now))"

text \<open>\<^verbatim>\<open>SMSCRequestHandler._handle_simulate_outgoing_request\<close>\<close>

definition handle_simulate_outgoing_request ::
    "(string \<Rightarrow> string) \<Rightarrow> sms_handler \<Rightarrow> shared_store \<Rightarrow> query \<Rightarrow> string
       \<Rightarrow> sms_handler \<times> shared_store \<times> http_response" where
  "handle_simulate_outgoing_request unquote h fs query_params now =
     (let failed = (h, fs, send_json_response 500
                      (JDict [(''status'', JStr ''ERROR''),
                              (''message'', JStr ''list index out of range'')]))
      in case query_first query_params ''destination'' [''+5511999999999''] of
           None \<Rightarrow> failed
         | Some destination \<Rightarrow>
             (case query_first query_params ''message'' [''Mensagem de teste do simulador''] of
                None \<Rightarrow> failed
              | Some message_text \<Rightarrow>
                  (case simulate_outgoing_message h fs (unquote destination)
                          (unquote message_text) now of
                     (h1, fs1, message_data) \<Rightarrow>
                       (h1, fs1, send_json_response 200
                          (JDict [(''status'', JStr ''OK''),
                                  (''message'', JStr ''Outgoing message simulated successfully''),
                                  (''message_id'',
                                     (case msg_get message_data ''id'' of
                                        Inr v \<Rightarrow> v | Inl e \<Rightarrow> JNull)),
                                  (''destination'', JStr destination),
                                  (''text'', JStr message_text)])))))"

text \<open>\<^verbatim>\<open>_handle_messages_request\<close>: reconcile, then answer with the view.\<close>

definition handle_messages_request ::
    "sms_handler \<Rightarrow> shared_store \<Rightarrow> string \<Rightarrow> sms_handler \<times> http_response" where
  "handle_messages_request h fs now =
     (let h1 = load_shared_messages h fs
      in (h1, send_json_response 200
                (JDict [(''messages'', JList (processed_messages h1)),
                        (''total_count'', JInt (int (length (processed_messages h1)))),
                        (''timestamp'', JStr now)])))"

text \<open>\<^verbatim>\<open>_handle_clear_messages\<close>\<close>

definition handle_clear_messages :: "sms_handler \<Rightarrow> string \<Rightarrow> sms_handler \<times> http_response" where
  "handle_clear_messages h now =
     (clear_messages h,
      send_json_response 200
        (JDict [(''status'', JStr ''success''),
                (''message'', JStr ''All messages cleared successfully''),
                (''timestamp'', JStr now)]))"

text \<open>
  \<^verbatim>\<open>http_server_80.SMSHandler._handle_sms_request\<close>: this listener keeps no local view,
  the shared file is its only record of a submission. \<open>stamp\<close> is the
  \<^verbatim>\<open>strftime\<close> text of the clock reading.
\<close>

definition http80_handle_sms_request ::
    "shared_store \<Rightarrow> query \<Rightarrow> string \<Rightarrow> string \<Rightarrow> shared_store \<times> http_response" where
  "http80_handle_sms_request fs params stamp now =
     (case query_first params ''submit'' [[]] of
        None \<Rightarrow>
          (fs, send_json_response 500
                 (JDict [(''status'', JStr ''error''),
                         (''message'', JStr ''Error processing SMS''),
                         (''timestamp'', JStr now)]))
      | Some submit_param \<Rightarrow>
          (let processed_parameters =
                 JDict [(''sms_submit'', JBool (map_of params ''submit'' \<noteq> None)),
                        (''sms_submit_ud'', JBool (map_of params ''sms_submit_ud'' \<noteq> None)),
                        (''sms_submit_da'', JBool (map_of params ''sms_submit_da'' \<noteq> None)),
                        (''sms_submit_pid'', JBool (map_of params ''sms_submit_pid'' \<noteq> None)),
                        (''sms_submit_dcs'', JBool (map_of params ''sms_submit_dcs'' \<noteq> None))];
               message = JDict [(''id'', JStr (''msg_'' @ stamp)),
                                (''timestamp'', JStr now),
                                (''content'', JStr submit_param),
                                (''source'', JStr ''http_port_80''),
                                (''processed_parameters'', processed_parameters)]
           in (http80_save_message_to_shared_file message now fs,
               send_json_response 200
                 (JDict [(''status'', JStr ''success''),
                         (''message'', JStr ''SMS received and processed successfully''),
                         (''timestamp'', JStr now),
                         (''processed_parameters'', processed_parameters)]))))"

section \<open>Notions used in the statements\<close>

text \<open>
  \<^verbatim>\<open>self.processed_messages.append(message_data)\<close> followed by
  \<^verbatim>\<open>if len(self.processed_messages) > 100: self.processed_messages.pop(0)\<close>, the step
  that the three ingestion operations share.
\<close>

definition push_capped :: "json list \<Rightarrow> json \<Rightarrow> json list" where
  "push_capped view m = (if 100 < length (view @ [m]) then tl (view @ [m]) else view @ [m])"

text \<open>
  The handler of a process that started fresh at \<open>t0\<close>, next to a shared file that was
  \<open>fs\<close> at that moment, after the operations \<open>ops\<close>.
\<close>

definition handler_after :: "op list \<Rightarrow> string \<Rightarrow> shared_store \<Rightarrow> sms_handler" where
  "handler_after ops t0 fs = fst (run ops (SMSHandler_init t0, fs))"

text \<open>
  No shared file yet, in a place where one can be written.
\<close>

definition absent_store :: shared_store where
  "absent_store = \<lparr>content = None, on_write = Completes\<rparr>"

text \<open>
  The relation between the three counters that every operation keeps.
\<close>

definition counters_ok :: "sms_handler \<Rightarrow> bool" where
  "counters_ok h \<longleftrightarrow>
     successful_messages h + failed_messages h = message_counter h \<and> failed_messages h = 0
     \<and> 0 \<le> message_counter h"

text \<open>
  What the view of a process holds as long as it has not reconciled: as many records as
  were ingested since the last clear, up to 100, all with status \<^verbatim>\<open>success\<close>.
\<close>

definition local_view_ok :: "sms_handler \<Rightarrow> bool" where
  "local_view_ok h \<longleftrightarrow>
     int (length (processed_messages h)) = min (message_counter h) 100
     \<and> (\<forall>m \<in> set (processed_messages h). msg_get m ''status'' = Inr (JStr ''success''))"

text \<open>
  A record as the reconcile loop accepts it: a dictionary whose \<^verbatim>\<open>id\<close> (possibly
  missing) is hashable.
\<close>

definition has_key :: "json \<Rightarrow> bool" where
  "has_key m = (case msg_id_key m of Inl e \<Rightarrow> False | Inr k \<Rightarrow> True)"

text \<open>
  What the loop of \<^verbatim>\<open>load_shared_messages\<close> iterates over; nothing when the file is
  absent, unparsable or not iterable.
\<close>

definition store_records :: "shared_store \<Rightarrow> json list" where
  "store_records fs =
     (case content fs of
        Some (Doc shared_messages) \<Rightarrow>
          (case py_iter shared_messages of Inl e \<Rightarrow> [] | Inr msgs \<Rightarrow> msgs)
      | _ \<Rightarrow> [])"

text \<open>
  The records that the cap check at the end of \<^verbatim>\<open>load_shared_messages\<close> drops from the
  front of the merged view.
\<close>

definition evicted_by_cap :: "sms_handler \<Rightarrow> shared_store \<Rightarrow> json list" where
  "evicted_by_cap h fs =
     (case merge_shared_messages h fs of
        (view, reached_cap) \<Rightarrow>
          (if reached_cap \<and> 100 < length view then take (length view - 100) view else []))"

text \<open>
  The number of records of a view that carry the id \<open>X\<close>.
\<close>

definition count_id :: "pykey \<Rightarrow> json list \<Rightarrow> nat" where
  "count_id X view = length (filter (\<lambda>m. msg_id_key m = Inr X) view)"

text \<open>
  The store records the loop appends: among those read before the first malformed entry,
  the ones whose id is not in \<^verbatim>\<open>existing_ids\<close>.
\<close>

definition discovered :: "pykey list \<Rightarrow> json list \<Rightarrow> json list" where
  "discovered ids msgs =
     filter (\<lambda>m. msg_id_key m \<notin> Inr ` set ids) (takeWhile has_key msgs)"

text \<open>
  The ways in which \<^verbatim>\<open>_save_message_to_shared_file\<close> of the simulator fails to write
  the record: the parsed content is no list and has no \<^verbatim>\<open>append\<close>, or the file cannot be
  opened for writing, or the write raises after the file was opened and truncated.
\<close>

fun is_list :: "json \<Rightarrow> bool" where
  "is_list (JList xs) = True"
| "is_list _ = False"

definition store_write_fails :: "shared_store \<Rightarrow> bool" where
  "store_write_fails fs \<longleftrightarrow>
     on_write fs \<noteq> Completes
     \<or> (case content fs of Some (Doc parsed) \<Rightarrow> \<not> is_list parsed | _ \<Rightarrow> False)"

text \<open>
  The recognised parameters of a submission. A parameter is blank when it is absent or its
  first value is the empty string. \<^verbatim>\<open>parse_qs\<close> returns no empty value list.
\<close>

definition recognized_fields :: "string list" where
  "recognized_fields =
     [''submit'', ''sms_submit_ud'', ''sms_submit_da'', ''sms_submit_pid'', ''sms_submit_dcs'']"

definition field_blank :: "query \<Rightarrow> string \<Rightarrow> bool" where
  "field_blank query_params k \<longleftrightarrow> query_first query_params k [[]] = Some []"

definition parsed_query :: "query \<Rightarrow> bool" where
  "parsed_query query_params \<longleftrightarrow> (\<forall>kv \<in> set query_params. snd kv \<noteq> [])"

text \<open>
  Concrete states for the examples: a handler with a given view, the handler whose view
  holds the ids 1 to 100, and a file holding a given list, on which writes complete.
\<close>

definition view_of :: "json list \<Rightarrow> sms_handler" where
  "view_of msgs = (SMSHandler_init [])\<lparr>processed_messages := msgs\<rparr>"

definition view_1_to_100 :: sms_handler where
  "view_1_to_100 =
     (SMSHandler_init [])\<lparr>processed_messages := map (\<lambda>i. JDict [(''id'', JInt i)]) [1..100]\<rparr>"

definition store_of :: "json list \<Rightarrow> shared_store" where
  "store_of msgs = \<lparr>content = Some (Doc (JList msgs)), on_write = Completes\<rparr>"

text \<open>
  Scenarios: a run without reconcile, a file holding one record on a full disk, a query
  that carries
  user data only, a query that carries \<^verbatim>\<open>submit\<close> only, the file as the port-80
  listener leaves it after one submission, the file as the simulator leaves it after one
  \<^verbatim>\<open>add_message\<close>, and the simulator's state after that call.
\<close>

definition local_ops :: "op list" where
  "local_ops = [ProcessSms [] [] [], AddMessage [] [], ClearMessages, SimulateOutgoing [] [] []]"

definition full_disk_store :: shared_store where
  "full_disk_store =
     \<lparr>content = Some (Doc (JList [JDict [(''id'', JInt 7)]])), on_write = Interrupted Corrupt\<rparr>"

definition user_data_query :: query where
  "user_data_query = [(''sms_submit_ud'', [''hello''])]"

definition submit_query :: query where
  "submit_query = [(''submit'', [''0011000B915511999999990000AA05E8329BFD06''])]"

definition port80_written_store :: shared_store where
  "port80_written_store =
     fst (http80_handle_sms_request absent_store submit_query
            ''20261104_101500_000000'' ''2026-11-04T10:15:00'')"

definition simulator_written_store :: shared_store where
  "simulator_written_store = snd (run [AddMessage [] []] (SMSHandler_init [], absent_store))"

definition after_one_message :: "sms_handler \<times> shared_store" where
  "after_one_message = run [AddMessage [] []] (SMSHandler_init [], absent_store)"

section \<open>The FIFO cap of the local view\<close>

lemma length_last100: "length (last100 xs) = min (length xs) 100"
  by (simp add: last100_def)

lemma last100_short: "length xs \<le> 100 \<Longrightarrow> last100 xs = xs"
  by (simp add: last100_def)

lemma push_capped_last100:
  "push_capped (last100 xs) m = last100 (xs @ [m])"
proof (cases "length xs < 100")
  case True
  then show ?thesis by (simp add: push_capped_def last100_def)
next
  case False
  then have n: "100 \<le> length xs" by simp
  then have e: "Suc (length xs) - 100 = Suc (length xs - 100)" by arith
  have "tl (drop (length xs - 100) xs @ [m]) = drop (Suc (length xs - 100)) xs @ [m]"
    using n by (simp add: drop_Suc tl_drop)
  with n e show ?thesis
    by (simp add: push_capped_def last100_def)
qed

lemma process_sms_view:
  "processed_messages (fst (process_sms h a m now)) =
     push_capped (processed_messages h) (new_record (ProcessSms a m now) (message_counter h + 1))"
  by (simp add: process_sms_def push_capped_def Let_def)

lemma add_message_view:
  "processed_messages (fst (add_message h fs d now)) =
     push_capped (processed_messages h) (new_record (AddMessage d now) (message_counter h + 1))"
  by (simp add: add_message_def push_capped_def Let_def)

lemma simulate_outgoing_view:
  "processed_messages (fst (simulate_outgoing_message h fs d t now)) =
     push_capped (processed_messages h) (new_record (SimulateOutgoing d t now) (message_counter h + 1))"
  by (simp add: simulate_outgoing_message_def push_capped_def Let_def)

lemma step_append_view:
  "is_append x \<Longrightarrow> processed_messages (fst (step (h, fs) x)) =
     push_capped (processed_messages h) (new_record x (message_counter h + 1))"
proof (cases x)
  case (ProcessSms a m now)
  then show ?thesis by (simp add: process_sms_view)
next
  case (AddMessage d now)
  have "fst (step (h, fs) (AddMessage d now)) = fst (add_message h fs d now)"
    by (simp split: prod.splits)
  with AddMessage show ?thesis by (simp only: add_message_view)
next
  case (SimulateOutgoing d t now)
  have "fst (step (h, fs) (SimulateOutgoing d t now)) = fst (simulate_outgoing_message h fs d t now)"
    by (simp split: prod.splits)
  with SimulateOutgoing show ?thesis by (simp only: simulate_outgoing_view)
qed simp_all


lemma step_append_counter:
  "is_append x \<Longrightarrow> message_counter (fst (step (h, fs) x)) = message_counter h + 1"
  by (cases x)
     (simp_all add: process_sms_def add_message_def simulate_outgoing_message_def Let_def)

lemma run_snoc: "run (ops @ [x]) s = step (run ops s) x"
  by (simp add: run_def)

lemma new_records_snoc:
  "new_records c (ops @ [x]) = new_records c ops @ [new_record x (c + 1 + int (length ops))]"
  by (simp add: new_records_def enumerate_append_eq)

lemma run_appends:
  assumes "list_all is_append ops" and "length (processed_messages h) \<le> 100"
  shows "message_counter (fst (run ops (h, fs))) = message_counter h + int (length ops) \<and>
         processed_messages (fst (run ops (h, fs))) =
           last100 (processed_messages h @ new_records (message_counter h) ops)"
  using assms(1)
proof (induction ops rule: rev_induct)
  case Nil
  show ?case using assms(2) by (simp add: run_def new_records_def last100_short)
next
  case (snoc x ops)
  obtain h1 fs1 where s: "run ops (h, fs) = (h1, fs1)" by (cases "run ops (h, fs)")
  from snoc have x: "is_append x" and ih:
    "message_counter h1 = message_counter h + int (length ops)"
    "processed_messages h1 = last100 (processed_messages h @ new_records (message_counter h) ops)"
    using s by simp_all
  have c: "message_counter (fst (step (h1, fs1) x)) = message_counter h + int (length (ops @ [x]))"
    using step_append_counter [OF x, of h1 fs1] ih(1) by simp
  have v: "processed_messages (fst (step (h1, fs1) x)) =
      last100 (processed_messages h @ new_records (message_counter h) (ops @ [x]))"
    using step_append_view [OF x, of h1 fs1] ih
    by (simp add: push_capped_last100 new_records_snoc add.commute add.left_commute)
  show ?case using c v by (simp only: run_snoc s)
qed

lemma new_record_id: "is_append x \<Longrightarrow> msg_id_key (new_record x n) = Inr (KNum n)"
  by (cases x)
     (simp_all add: msg_id_key_def dict_get_def process_sms_message_data_def
        add_message_data_def outgoing_message_data_def)

lemma new_records_ids:
  assumes "list_all is_append ops"
  shows "map msg_id_key (new_records c ops) = map (\<lambda>i. Inr (KNum (c + 1 + int i))) [0..<length ops]"
proof (rule nth_equalityI)
  show "length (map msg_id_key (new_records c ops)) =
        length (map (\<lambda>i. Inr (KNum (c + 1 + int i))) [0..<length ops])"
    by (simp add: new_records_def)
next
  fix i assume "i < length (map msg_id_key (new_records c ops))"
  then have i: "i < length ops" by (simp add: new_records_def)
  with assms have "is_append (ops ! i)" by (simp add: list_all_length)
  with i show "map msg_id_key (new_records c ops) ! i =
        map (\<lambda>i. Inr (KNum (c + 1 + int i))) [0..<length ops] ! i"
    by (simp add: new_records_def nth_enumerate_eq new_record_id)
qed

lemma last100_map: "last100 (map f xs) = map f (last100 xs)"
  by (simp add: last100_def drop_map)

lemma last100_upt: "last100 [0..<n] = [n - 100..<n]"
  by (simp add: last100_def)

text \<open>
  Claim C2. A fresh handler that performs any sequence of \<open>N\<close> ingestions
  (\<^verbatim>\<open>process_sms\<close>, \<^verbatim>\<open>add_message\<close>, \<^verbatim>\<open>simulate_outgoing_message\<close>, in any mix and
  whatever happens to the shared file) holds \<open>min N 100\<close> records: exactly the last 100 of
  the records it created, in creation order, with the ids \<open>N - 99, \<dots>, N\<close> once \<open>N\<close> is at
  least 100. After 101 ingestions the ids are 2 to 101.
\<close>

theorem cap_invariant:
  assumes "list_all is_append ops"
  shows "length (processed_messages (fst (run ops (SMSHandler_init t0, fs)))) = min (length ops) 100
       \<and> processed_messages (fst (run ops (SMSHandler_init t0, fs))) = last100 (new_records 0 ops)
       \<and> map msg_id_key (processed_messages (fst (run ops (SMSHandler_init t0, fs)))) =
           map (\<lambda>n. Inr (KNum (int n))) [Suc (length ops - 100)..<Suc (length ops)]"
proof -
  let ?v = "processed_messages (fst (run ops (SMSHandler_init t0, fs)))"
  have v: "?v = last100 (new_records 0 ops)"
    using run_appends [OF assms, of "SMSHandler_init t0" fs] by (simp add: SMSHandler_init_def)
  have l: "length ?v = min (length ops) 100"
    by (simp add: v length_last100 new_records_def)
  have "map msg_id_key ?v = last100 (map msg_id_key (new_records 0 ops))"
    by (simp only: v last100_map)
  also have "\<dots> = map (\<lambda>i. Inr (KNum (0 + 1 + int i))) (last100 [0..<length ops])"
    by (simp only: new_records_ids [OF assms] last100_map)
  also have "\<dots> = map ((\<lambda>n. Inr (KNum (int n))) \<circ> Suc) [length ops - 100..<length ops]"
    by (simp add: last100_upt comp_def add.commute)
  also have "\<dots> = map (\<lambda>n. Inr (KNum (int n))) [Suc (length ops - 100)..<Suc (length ops)]"
    by (simp only: map_map [symmetric] map_Suc_upt)
  finally show ?thesis using v l by simp
qed

text \<open>The scenario of the claim: 101 ingestions leave the ids 2 to 101.\<close>

theorem cap_invariant_witness:
  "list_all is_append (replicate 101 (ProcessSms [] [] []))
   \<and> length (processed_messages (fst (run (replicate 101 (ProcessSms [] [] []))
        (SMSHandler_init [], \<lparr>content = None, on_write = Completes\<rparr>)))) = 100
   \<and> map msg_id_key (processed_messages (fst (run (replicate 101 (ProcessSms [] [] []))
        (SMSHandler_init [], \<lparr>content = None, on_write = Completes\<rparr>)))) =
       map (\<lambda>n. Inr (KNum (int n))) [2..<102]"
proof -
  have a: "list_all is_append (replicate 101 (ProcessSms [] [] []))"
    by (simp add: list_all_length)
  have n: "length (replicate 101 (ProcessSms [] [] [])) = 101"
    "min (101::nat) 100 = 100" "Suc (101 - 100) = 2" "Suc 101 = 102"
    by simp_all
  note t = cap_invariant [OF a, of "[]" "\<lparr>content = None, on_write = Completes\<rparr>"]
  have t1: "length (processed_messages (fst (run (replicate 101 (ProcessSms [] [] []))
        (SMSHandler_init [], \<lparr>content = None, on_write = Completes\<rparr>)))) = 100"
    using t [THEN conjunct1] by (simp only: n)
  have t3: "map msg_id_key (processed_messages (fst (run (replicate 101 (ProcessSms [] [] []))
        (SMSHandler_init [], \<lparr>content = None, on_write = Completes\<rparr>)))) =
       map (\<lambda>n. Inr (KNum (int n))) [2..<102]"
    using t [THEN conjunct2, THEN conjunct2] by (simp only: n)
  from a t1 t3 show ?thesis by (intro conjI)
qed

text \<open>
  The same cap on the file: a write into a list appends and keeps the last 100.
\<close>

lemma save_message_to_shared_file_cap:
  assumes "content fs = Some (Doc (JList ms))" and "on_write fs = Completes"
  shows "content (save_message_to_shared_file m fs) = Some (Doc (JList (last100 (ms @ [m]))))"
proof (cases "100 < length (ms @ [m])")
  case True
  with assms show ?thesis by (simp add: save_message_to_shared_file_def write_back_def Let_def)
next
  case False
  then have "last100 (ms @ [m]) = ms @ [m]" by (simp add: last100_def)
  with False assms show ?thesis
    by (simp add: save_message_to_shared_file_def write_back_def Let_def)
qed

section \<open>Counters and statistics\<close>

lemma run_invariant:
  assumes "P s" and "\<And>s x. x \<in> set ops \<Longrightarrow> P s \<Longrightarrow> P (step s x)"
  shows "P (run ops s)"
  using assms(2)
proof (induction ops rule: rev_induct)
  case Nil
  show ?case using assms(1) by (simp add: run_def)
next
  case (snoc x ops)
  then have "P (run ops s)" by simp
  with snoc.prems [of x "run ops s"] show ?case by (simp add: run_snoc)
qed

lemma load_shared_messages_counters [simp]:
  "message_counter (load_shared_messages h fs) = message_counter h"
  "successful_messages (load_shared_messages h fs) = successful_messages h"
  "failed_messages (load_shared_messages h fs) = failed_messages h"
  by (simp_all add: load_shared_messages_def split: prod.splits)

lemma step_counters_ok: "counters_ok (fst s) \<Longrightarrow> counters_ok (fst (step s x))"
  by (cases s; cases x)
     (simp_all add: counters_ok_def process_sms_def add_message_def simulate_outgoing_message_def
        clear_messages_def reset_statistics_def process_sms_response_def dict_get_def Let_def)

lemma run_counters_ok: "counters_ok (handler_after ops t0 fs)"
  unfolding handler_after_def
  by (rule run_invariant [where P = "\<lambda>s. counters_ok (fst s)"])
     (simp_all add: step_counters_ok, simp add: counters_ok_def SMSHandler_init_def)

lemma new_record_status:
  "is_append x \<Longrightarrow> msg_get (new_record x n) ''status'' = Inr (JStr ''success'')"
  by (cases x)
     (simp_all add: dict_get_def process_sms_message_data_def process_sms_response_def
        add_message_data_def outgoing_message_data_def)

lemma length_push_capped:
  "length v \<le> 100 \<Longrightarrow> length (push_capped v m) = min (Suc (length v)) 100"
  by (simp add: push_capped_def)

lemma set_push_capped: "set (push_capped v m) \<subseteq> insert m (set v)"
proof (cases "100 < length (v @ [m])")
  case True
  then have "set (push_capped v m) = set (tl (v @ [m]))" by (simp add: push_capped_def)
  also have "\<dots> \<subseteq> set (v @ [m])" by (rule list.set_sel(2) [THEN subsetI]) simp
  finally show ?thesis by simp
next
  case False
  then show ?thesis by (simp add: push_capped_def)
qed

lemma cap_arith: "int n = min c 100 \<Longrightarrow> int (min (Suc n) 100) = min (c + 1) 100"
  by (cases "c \<le> 99") auto

lemma step_local_view_ok:
  assumes "\<not> is_reconcile x" and "counters_ok (fst s)" and "local_view_ok (fst s)"
  shows "local_view_ok (fst (step s x))"
proof (cases "is_append x")
  case True
  obtain h fs where s: "s = (h, fs)" by (cases s)
  let ?m = "new_record x (message_counter h + 1)"
  have v: "processed_messages (fst (step s x)) = push_capped (processed_messages h) ?m"
    and c: "message_counter (fst (step s x)) = message_counter h + 1"
    using True by (simp_all add: s step_append_view step_append_counter)
  from assms(2,3) have l: "length (processed_messages h) \<le> 100" and c0: "0 \<le> message_counter h"
    by (auto simp: s local_view_ok_def counters_ok_def)
  from assms(3) have len: "int (length (processed_messages h)) = min (message_counter h) 100"
    by (simp add: s local_view_ok_def)
  have "length (push_capped (processed_messages h) ?m) = min (Suc (length (processed_messages h))) 100"
    by (rule length_push_capped [OF l])
  with len have "int (length (push_capped (processed_messages h) ?m)) = min (message_counter h + 1) 100"
    by (simp only: cap_arith)
  moreover have "\<forall>m \<in> set (push_capped (processed_messages h) ?m).
      msg_get m ''status'' = Inr (JStr ''success'')"
    using set_push_capped [of "processed_messages h" ?m] assms(3) new_record_status [OF True]
    by (auto simp: s local_view_ok_def)
  ultimately show ?thesis by (simp add: local_view_ok_def v c)
next
  case False
  with assms show ?thesis
    by (cases s; cases x)
       (simp_all add: local_view_ok_def clear_messages_def reset_statistics_def)
qed

lemma run_local_view_ok:
  assumes "\<forall>x \<in> set ops. \<not> is_reconcile x"
  shows "local_view_ok (handler_after ops t0 fs)"
proof -
  have "counters_ok (fst (run ops (SMSHandler_init t0, fs)))
      \<and> local_view_ok (fst (run ops (SMSHandler_init t0, fs)))"
  proof (rule run_invariant [where P = "\<lambda>s. counters_ok (fst s) \<and> local_view_ok (fst s)"])
    show "counters_ok (fst (SMSHandler_init t0, fs)) \<and> local_view_ok (fst (SMSHandler_init t0, fs))"
      by (simp add: counters_ok_def local_view_ok_def SMSHandler_init_def)
  next
    fix s :: "sms_handler \<times> shared_store" and x
    assume "x \<in> set ops" and "counters_ok (fst s) \<and> local_view_ok (fst s)"
    with assms show "counters_ok (fst (step s x)) \<and> local_view_ok (fst (step s x))"
      by (simp add: step_counters_ok step_local_view_ok)
  qed
  then show ?thesis by (simp add: handler_after_def)
qed

lemma get_statistics_counters:
  "dict_get (get_statistics h) ''total_messages'' JNull = JInt (message_counter h)"
  "dict_get (get_statistics h) ''successful_messages'' JNull = JInt (successful_messages h)"
  "dict_get (get_statistics h) ''failed_messages'' JNull = JInt (failed_messages h)"
  by (simp_all add: get_statistics_def dict_get_def Let_def)





text \<open>
  Claim C10. After any run the failed counter is 0, in the handler and in the statistics.
  Every record that an ingestion creates has status \<^verbatim>\<open>success\<close>, whatever its counter
  value, and so has every record in the view of a process that has not reconciled.
\<close>

theorem failed_branch_unreachable:
  "failed_messages (handler_after ops t0 fs) = 0
   \<and> dict_get (get_statistics (handler_after ops t0 fs)) ''failed_messages'' JNull = JInt 0
   \<and> (\<forall>x n. is_append x \<longrightarrow> msg_get (new_record x n) ''status'' = Inr (JStr ''success''))
   \<and> ((\<forall>x \<in> set ops. \<not> is_reconcile x) \<longrightarrow>
        (\<forall>m \<in> set (processed_messages (handler_after ops t0 fs)).
           msg_get m ''status'' = Inr (JStr ''success'')))"
  using run_counters_ok [of ops t0 fs] run_local_view_ok [of ops t0 fs]
  by (simp add: get_statistics_counters counters_ok_def local_view_ok_def new_record_status)

text \<open>
  An instance: the same run of four local operations.
\<close>

theorem failed_branch_unreachable_witness:
  "list_all (\<lambda>x. \<not> is_reconcile x) local_ops
   \<and> is_append (ProcessSms [] [] [])
   \<and> failed_messages (handler_after local_ops [] absent_store) = 0
   \<and> msg_get (new_record (ProcessSms [] [] []) 1) ''status'' = Inr (JStr ''success'')
   \<and> list_all (\<lambda>m. msg_get m ''status'' = Inr (JStr ''success''))
        (processed_messages (handler_after local_ops [] absent_store))"
proof -
  have a: "list_all (\<lambda>x. \<not> is_reconcile x) local_ops"
    by (simp add: local_ops_def)
  then have b: "\<forall>x \<in> set local_ops. \<not> is_reconcile x"
    by (simp add: list_all_iff)
  have c: "is_append (ProcessSms [] [] [])" by simp
  note t = failed_branch_unreachable [of local_ops "[]" absent_store]
  from t have t1: "failed_messages (handler_after local_ops [] absent_store) = 0"
    by blast
  from t c have t3: "msg_get (new_record (ProcessSms [] [] []) 1) ''status'' = Inr (JStr ''success'')"
    by blast
  from t b have "\<forall>m \<in> set (processed_messages (handler_after local_ops [] absent_store)).
           msg_get m ''status'' = Inr (JStr ''success'')"
    by blast
  then have t4: "list_all (\<lambda>m. msg_get m ''status'' = Inr (JStr ''success''))
        (processed_messages (handler_after local_ops [] absent_store))"
    by (simp add: list_all_iff)
  from a c t1 t3 t4 show ?thesis by (intro conjI)
qed

section \<open>Reconciliation\<close>

lemma has_key_iff: "has_key m \<longleftrightarrow> (\<exists>k. msg_id_key m = Inr k)"
  by (simp add: has_key_def split: sum.splits)

lemma collect_ids_Inr:
  "collect_ids v = Inr ids \<Longrightarrow> map Inr ids = map msg_id_key v"
  by (induction v arbitrary: ids) (auto split: sum.splits)

lemma collect_ids_Inr_keys:
  assumes "collect_ids v = Inr ids"
  shows "Inr ` set ids = msg_id_key ` set v" and "list_all has_key v"
proof -
  from collect_ids_Inr [OF assms] have e: "map Inr ids = map msg_id_key v" .
  have "Inr ` set ids = set (map Inr ids)" by simp
  also have "\<dots> = msg_id_key ` set v" by (simp only: e set_map)
  finally show "Inr ` set ids = msg_id_key ` set v" .
  then show "list_all has_key v"
    by (auto simp: list_all_iff has_key_iff)
qed

lemma collect_ids_total:
  "list_all has_key v \<Longrightarrow> \<exists>ids. collect_ids v = Inr ids"
  by (induction v) (auto simp: has_key_iff)

lemma merge_loop_view:
  "fst (merge_loop ids msgs v) = v @ discovered ids msgs"
proof (induction msgs arbitrary: v)
  case Nil
  show ?case by (simp add: discovered_def)
next
  case (Cons m msgs)
  show ?case
  proof (cases "msg_id_key m")
    case (Inl e)
    then show ?thesis by (simp add: discovered_def has_key_def)
  next
    case (Inr k)
    then have "has_key m" by (simp add: has_key_def)
    with Inr Cons.IH show ?thesis by (auto simp: discovered_def)
  qed
qed

lemma merge_loop_completes:
  "snd (merge_loop ids msgs v) = None \<longleftrightarrow> list_all has_key msgs"
  by (induction msgs arbitrary: v) (auto simp: has_key_def split: sum.splits)

lemma merge_shared_messages_cases:
  obtains (unchanged) "merge_shared_messages h fs = (processed_messages h, False)"
  | (merged) ids msgs where "collect_ids (processed_messages h) = Inr ids"
      and "store_records fs = msgs"
      and "merge_shared_messages h fs =
             (processed_messages h @ discovered ids msgs, list_all has_key msgs)"
proof (cases "content fs")
  case None
  then show ?thesis using unchanged by (simp add: merge_shared_messages_def)
next
  case (Some c)
  show ?thesis
  proof (cases c)
    case Corrupt
    with Some show ?thesis using unchanged by (simp add: merge_shared_messages_def)
  next
    case Unreadable
    with Some show ?thesis using unchanged by (simp add: merge_shared_messages_def)
  next
    case (Doc j)
    show ?thesis
    proof (cases "collect_ids (processed_messages h)")
      case (Inl e)
      with Some Doc show ?thesis using unchanged by (simp add: merge_shared_messages_def)
    next
      case ids: (Inr ids)
      show ?thesis
      proof (cases "py_iter j")
        case (Inl e)
        with Some Doc ids show ?thesis using unchanged by (simp add: merge_shared_messages_def)
      next
        case (Inr msgs)
        obtain w r where m: "merge_loop ids msgs (processed_messages h) = (w, r)"
          by (cases "merge_loop ids msgs (processed_messages h)")
        from m have w: "w = processed_messages h @ discovered ids msgs"
          using merge_loop_view [of ids msgs "processed_messages h"] by simp
        from m have r: "r = None \<longleftrightarrow> list_all has_key msgs"
          using merge_loop_completes [of ids msgs "processed_messages h"] by simp
        have "merge_shared_messages h fs =
             (processed_messages h @ discovered ids msgs, list_all has_key msgs)"
          using Some Doc ids Inr m w r
          by (cases r) (simp_all add: merge_shared_messages_def)
        moreover have "store_records fs = msgs"
          using Some Doc Inr by (simp add: store_records_def)
        ultimately show ?thesis using merged ids by blast
      qed
    qed
  qed
qed

lemma load_unchanged:
  "merge_shared_messages h fs = (processed_messages h, False) \<Longrightarrow> load_shared_messages h fs = h"
  by (simp add: load_shared_messages_def)

lemma discovered_keys:
  assumes "m \<in> set (takeWhile has_key msgs)"
  shows "msg_id_key m \<in> Inr ` set ids \<or> m \<in> set (discovered ids msgs)"
  using assms by (auto simp: discovered_def)

lemma discovered_has_key: "list_all has_key (discovered ids msgs)"
  by (auto simp: discovered_def list_all_iff dest: set_takeWhileD)

lemma discovered_empty:
  assumes "\<forall>m \<in> set (takeWhile has_key msgs). msg_id_key m \<in> Inr ` set ids"
  shows "discovered ids msgs = []"
  using assms by (auto simp: discovered_def filter_empty_conv)

lemma load_view:
  "merge_shared_messages h fs = (w, r) \<Longrightarrow>
   processed_messages (load_shared_messages h fs) = (if r \<and> 100 < length w then last100 w else w)"
  by (simp add: load_shared_messages_def)

lemma reconcile_twice:
  assumes "\<forall>e \<in> set (evicted_by_cap h fs). \<forall>m \<in> set (store_records fs).
             msg_id_key e \<noteq> msg_id_key m"
  shows "load_shared_messages (load_shared_messages h fs) fs = load_shared_messages h fs"
proof (cases rule: merge_shared_messages_cases [of h fs])
  case unchanged
  then show ?thesis by (simp add: load_unchanged)
next
  case (merged ids msgs)
  let ?v = "processed_messages h"
  let ?w = "?v @ discovered ids msgs"
  let ?r = "list_all has_key msgs"
  let ?h1 = "load_shared_messages h fs"
  let ?v1 = "processed_messages ?h1"
  have v1: "?v1 = (if ?r \<and> 100 < length ?w then last100 ?w else ?w)"
    by (rule load_view [OF merged(3)])
  have len1: "?r \<Longrightarrow> length ?v1 \<le> 100"
    by (simp add: v1 length_last100)
  have keys_v: "Inr ` set ids = msg_id_key ` set ?v"
    by (rule collect_ids_Inr_keys(1) [OF merged(1)])
  have carried: "msg_id_key m \<in> msg_id_key ` set ?v1"
    if m: "m \<in> set (takeWhile has_key msgs)" for m
  proof -
    from discovered_keys [OF m, of ids] keys_v
    obtain e where e: "e \<in> set ?w" "msg_id_key e = msg_id_key m"
      by (auto simp: image_iff) metis
    show ?thesis
    proof (cases "?r \<and> 100 < length ?w")
      case False
      then have "?v1 = ?w" by (auto simp: v1)
      moreover from e have "msg_id_key m \<in> msg_id_key ` set ?w" by (metis imageI)
      ultimately show ?thesis by simp
    next
      case True
      then have ev: "evicted_by_cap h fs = take (length ?w - 100) ?w"
        by (simp add: evicted_by_cap_def merged(3))
      from m have "m \<in> set (store_records fs)"
        by (auto simp: merged(2) dest: set_takeWhileD)
      with assms e(2) have "e \<notin> set (take (length ?w - 100) ?w)"
        by (auto simp: ev)
      moreover have "set ?w = set (take (length ?w - 100) ?w) \<union> set (drop (length ?w - 100) ?w)"
        by (metis append_take_drop_id set_append)
      ultimately have "e \<in> set (drop (length ?w - 100) ?w)"
        using e(1) by blast
      then have "msg_id_key m \<in> msg_id_key ` set (last100 ?w)"
        unfolding last100_def using e(2) by (metis imageI)
      moreover from True have "?v1 = last100 ?w" by (simp add: v1)
      ultimately show ?thesis by simp
    qed
  qed
  show ?thesis
  proof (cases rule: merge_shared_messages_cases [of ?h1 fs])
    case unchanged
    then show ?thesis by (simp add: load_unchanged)
  next
    case again: (merged ids1 msgs1)
    have msgs1: "msgs1 = msgs" using again(2) merged(2) by simp
    have "Inr ` set ids1 = msg_id_key ` set ?v1"
      by (rule collect_ids_Inr_keys(1) [OF again(1)])
    with carried have "discovered ids1 msgs = []"
      by (intro discovered_empty) simp
    with again(3) have m2: "merge_shared_messages ?h1 fs = (?v1, ?r)"
      by (simp add: msgs1)
    have "processed_messages (load_shared_messages ?h1 fs) = ?v1"
      using load_view [OF m2] len1 by auto
    then show ?thesis
      by (simp add: load_shared_messages_def [of ?h1 fs] m2)
  qed
qed

text \<open>
  Claim C4, as the code has it. Reconciling twice against the same file gives the same
  handler as reconciling once, provided that no record dropped by the cap of the first
  reconcile has an id that also occurs in the file; in particular whenever the merged view
  stays within 100 records.
\<close>

theorem reconcile_idempotent:
  assumes "\<forall>e \<in> set (evicted_by_cap h fs). \<forall>m \<in> set (store_records fs).
             msg_id_key e \<noteq> msg_id_key m"
  shows "load_shared_messages (load_shared_messages h fs) fs = load_shared_messages h fs"
  using assms by (rule reconcile_twice)

text \<open>
  In particular, a merged view within the cap: nothing is evicted.
\<close>

lemma reconcile_twice_within_cap:
  assumes "length (fst (merge_shared_messages h fs)) \<le> 100"
  shows "load_shared_messages (load_shared_messages h fs) fs = load_shared_messages h fs"
proof (rule reconcile_twice)
  from assms have "evicted_by_cap h fs = []"
    by (cases "merge_shared_messages h fs") (simp add: evicted_by_cap_def)
  then show "\<forall>e \<in> set (evicted_by_cap h fs). \<forall>m \<in> set (store_records fs).
             msg_id_key e \<noteq> msg_id_key m"
    by simp
qed

text \<open>
  An instance with truncation: local ids 1 to 100 and a file holding id 101. The first
  reconcile drops the local record 1, whose id the file does not hold.
\<close>

theorem reconcile_idempotent_witness:
  "evicted_by_cap view_1_to_100 (store_of [JDict [(''id'', JInt 101)]]) = [JDict [(''id'', JInt 1)]]
   \<and> load_shared_messages (load_shared_messages view_1_to_100 (store_of [JDict [(''id'', JInt 101)]]))
        (store_of [JDict [(''id'', JInt 101)]]) =
      load_shared_messages view_1_to_100 (store_of [JDict [(''id'', JInt 101)]])"
proof -
  have e: "evicted_by_cap view_1_to_100 (store_of [JDict [(''id'', JInt 101)]]) = [JDict [(''id'', JInt 1)]]"
    by code_simp
  have s: "store_records (store_of [JDict [(''id'', JInt 101)]]) = [JDict [(''id'', JInt 101)]]"
    by code_simp
  have "\<forall>e \<in> set (evicted_by_cap view_1_to_100 (store_of [JDict [(''id'', JInt 101)]])).
        \<forall>m \<in> set (store_records (store_of [JDict [(''id'', JInt 101)]])).
             msg_id_key e \<noteq> msg_id_key m"
    unfolding e s by (simp add: msg_id_key_def dict_get_def)
  from reconcile_idempotent [OF this] e show ?thesis by (intro conjI)
qed

text \<open>
  Claim C4 as stated fails under truncation. With local ids 1 to 100 and a file holding
  ids 1 and 101, the first reconcile appends 101 and drops the local record 1; the second
  no longer finds id 1 locally, appends the file's record 1 and drops the record 2.
\<close>

theorem reconcile_not_idempotent:
  "load_shared_messages
     (load_shared_messages view_1_to_100 (store_of [JDict [(''id'', JInt 1)], JDict [(''id'', JInt 101)]]))
     (store_of [JDict [(''id'', JInt 1)], JDict [(''id'', JInt 101)]])
   \<noteq> load_shared_messages view_1_to_100 (store_of [JDict [(''id'', JInt 1)], JDict [(''id'', JInt 101)]])"
  by code_simp

lemma count_id_append: "count_id X (xs @ ys) = count_id X xs + count_id X ys"
  by (simp add: count_id_def)

lemma count_id_discovered:
  assumes "collect_ids v = Inr ids" and "0 < count_id X v"
  shows "count_id X (discovered ids msgs) = 0"
proof -
  from assms(2) obtain m where "m \<in> set v" "msg_id_key m = Inr X"
    by (auto simp: count_id_def filter_empty_conv)
  then have "Inr X \<in> msg_id_key ` set v" by (metis imageI)
  then have "(Inr X :: py_error + pykey) \<in> Inr ` set ids"
    using collect_ids_Inr_keys(1) [OF assms(1)] by simp
  then show ?thesis
    by (auto simp: count_id_def discovered_def filter_empty_conv)
qed

lemma discovered_all:
  assumes "collect_ids v = Inr ids" and "list_all has_key msgs"
  shows "discovered ids msgs = filter (\<lambda>m. msg_id_key m \<notin> msg_id_key ` set v) msgs"
proof -
  from assms(2) have "takeWhile has_key msgs = msgs"
    by (simp add: takeWhile_eq_all_conv list_all_iff)
  moreover have "Inr ` set ids = msg_id_key ` set v"
    by (rule collect_ids_Inr_keys(1) [OF assms(1)])
  ultimately show ?thesis
    by (simp only: discovered_def)
qed

text \<open>
  Claim C5, as the code has it. If exactly one local record has id \<open>X\<close>, then after
  reconcile that record is either still in the view or among the records the cap dropped,
  and no second record with id \<open>X\<close> is there, whatever the file holds. For a view and a
  file made of records, the result is the last 100 of: the local view, followed by the
  file's records whose id is not a local one, in file order.
\<close>

theorem dedup_and_order:
  assumes "count_id X (processed_messages h) = 1"
  shows "count_id X (processed_messages (load_shared_messages h fs))
           + count_id X (evicted_by_cap h fs) = 1
       \<and> (list_all has_key (processed_messages h) \<and> content fs = Some (Doc (JList msgs))
            \<and> list_all has_key msgs \<longrightarrow>
          processed_messages (load_shared_messages h fs) =
            last100 (processed_messages h @
              filter (\<lambda>m. msg_id_key m \<notin> msg_id_key ` set (processed_messages h)) msgs))"
proof (rule conjI)
  show "count_id X (processed_messages (load_shared_messages h fs))
           + count_id X (evicted_by_cap h fs) = 1"
  proof (cases rule: merge_shared_messages_cases [of h fs])
    case unchanged
    then show ?thesis using assms by (simp add: load_unchanged evicted_by_cap_def count_id_def)
  next
    case (merged ids ms)
    let ?w = "processed_messages h @ discovered ids ms"
    have w: "count_id X ?w = 1"
      using assms count_id_discovered [OF merged(1), of X ms] by (simp add: count_id_append)
    show ?thesis
    proof (cases "list_all has_key ms \<and> 100 < length ?w")
      case True
      then have "processed_messages (load_shared_messages h fs) = drop (length ?w - 100) ?w"
        and "evicted_by_cap h fs = take (length ?w - 100) ?w"
        using load_view [OF merged(3)] by (simp_all add: evicted_by_cap_def merged(3) last100_def)
      moreover have "count_id X (take (length ?w - 100) ?w) + count_id X (drop (length ?w - 100) ?w)
          = count_id X ?w"
        by (simp only: count_id_append [symmetric] append_take_drop_id)
      ultimately show ?thesis using w by simp
    next
      case False
      then have "processed_messages (load_shared_messages h fs) = ?w"
        and "evicted_by_cap h fs = []"
        using load_view [OF merged(3)] by (auto simp: evicted_by_cap_def merged(3))
      then show ?thesis using w by (simp add: count_id_def)
    qed
  qed
next
  show "list_all has_key (processed_messages h) \<and> content fs = Some (Doc (JList msgs))
            \<and> list_all has_key msgs \<longrightarrow>
          processed_messages (load_shared_messages h fs) =
            last100 (processed_messages h @
              filter (\<lambda>m. msg_id_key m \<notin> msg_id_key ` set (processed_messages h)) msgs)"
  proof (intro impI, elim conjE)
    assume v: "list_all has_key (processed_messages h)"
      and c: "content fs = Some (Doc (JList msgs))" and k: "list_all has_key msgs"
    from collect_ids_total [OF v] obtain ids where ids: "collect_ids (processed_messages h) = Inr ids" ..
    let ?w = "processed_messages h @ discovered ids msgs"
    have "merge_loop ids msgs (processed_messages h) = (?w, None)"
      using merge_loop_view [of ids msgs "processed_messages h"]
        merge_loop_completes [of ids msgs "processed_messages h"] k
      by (cases "merge_loop ids msgs (processed_messages h)") simp
    then have "merge_shared_messages h fs = (?w, True)"
      by (simp add: merge_shared_messages_def c ids)
    from load_view [OF this]
    have "processed_messages (load_shared_messages h fs) = last100 ?w"
      by (simp add: last100_short)
    then show "processed_messages (load_shared_messages h fs) =
            last100 (processed_messages h @
              filter (\<lambda>m. msg_id_key m \<notin> msg_id_key ` set (processed_messages h)) msgs)"
      by (simp only: discovered_all [OF ids k])
  qed
qed

text \<open>
  An instance: local ids 1 and 2, a file holding ids 1 and 3.
\<close>

theorem dedup_and_order_witness:
  "count_id (KNum 1) (processed_messages (view_of [JDict [(''id'', JInt 1)], JDict [(''id'', JInt 2)]])) = 1
   \<and> list_all has_key (processed_messages (view_of [JDict [(''id'', JInt 1)], JDict [(''id'', JInt 2)]]))
   \<and> content (store_of [JDict [(''id'', JInt 1)], JDict [(''id'', JInt 3)]]) =
       Some (Doc (JList [JDict [(''id'', JInt 1)], JDict [(''id'', JInt 3)]]))
   \<and> list_all has_key [JDict [(''id'', JInt 1)], JDict [(''id'', JInt 3)]]
   \<and> count_id (KNum 1) (processed_messages (load_shared_messages
         (view_of [JDict [(''id'', JInt 1)], JDict [(''id'', JInt 2)]])
         (store_of [JDict [(''id'', JInt 1)], JDict [(''id'', JInt 3)]])))
       + count_id (KNum 1) (evicted_by_cap
         (view_of [JDict [(''id'', JInt 1)], JDict [(''id'', JInt 2)]])
         (store_of [JDict [(''id'', JInt 1)], JDict [(''id'', JInt 3)]])) = 1
   \<and> processed_messages (load_shared_messages
         (view_of [JDict [(''id'', JInt 1)], JDict [(''id'', JInt 2)]])
         (store_of [JDict [(''id'', JInt 1)], JDict [(''id'', JInt 3)]])) =
       [JDict [(''id'', JInt 1)], JDict [(''id'', JInt 2)], JDict [(''id'', JInt 3)]]"
proof -
  let ?h = "view_of [JDict [(''id'', JInt 1)], JDict [(''id'', JInt 2)]]"
  let ?ms = "[JDict [(''id'', JInt 1)], JDict [(''id'', JInt 3)]]"
  have a: "count_id (KNum 1) (processed_messages ?h) = 1"
    by (simp add: count_id_def view_of_def msg_id_key_def dict_get_def)
  have b: "list_all has_key (processed_messages ?h)"
    by (simp add: has_key_def view_of_def msg_id_key_def dict_get_def)
  have c: "content (store_of ?ms) = Some (Doc (JList ?ms))"
    by (simp add: store_of_def)
  have d: "list_all has_key ?ms"
    by (simp add: has_key_def msg_id_key_def dict_get_def)
  note t = dedup_and_order [OF a, of "store_of ?ms" ?ms]
  from t [THEN conjunct2] b c d
  have "processed_messages (load_shared_messages ?h (store_of ?ms)) =
      last100 (processed_messages ?h @
        filter (\<lambda>m. msg_id_key m \<notin> msg_id_key ` set (processed_messages ?h)) ?ms)"
    by blast
  also have "\<dots> = [JDict [(''id'', JInt 1)], JDict [(''id'', JInt 2)], JDict [(''id'', JInt 3)]]"
    by (simp add: last100_def view_of_def msg_id_key_def dict_get_def)
  finally show ?thesis using a b c d t [THEN conjunct1] by (intro conjI)
qed

text \<open>
  Claim C5 as stated fails under truncation. With local ids 1 to 100 and a file holding
  ids 1 and 101, the only local record with id 1 is dropped by the cap and the file's
  record 1 is skipped: the view holds no record with id 1.
\<close>

theorem dedup_counterexample:
  "count_id (KNum 1) (processed_messages view_1_to_100) = 1
   \<and> JDict [(''id'', JInt 1)] \<in> set (store_records (store_of [JDict [(''id'', JInt 1)], JDict [(''id'', JInt 101)]]))
   \<and> count_id (KNum 1) (processed_messages (load_shared_messages view_1_to_100
        (store_of [JDict [(''id'', JInt 1)], JDict [(''id'', JInt 101)]]))) = 0"
  by code_simp

section \<open>A store write that fails\<close>

lemma is_listD: "is_list j \<Longrightarrow> \<exists>xs. j = JList xs"
  by (cases j) simp_all

lemma save_fails:
  assumes "store_write_fails fs"
  shows "save_message_to_shared_file m fs = fs
       \<or> (\<exists>left. on_write fs = Interrupted left
             \<and> save_message_to_shared_file m fs = fs\<lparr>content := Some left\<rparr>)"
proof (cases "case content fs of Some (Doc parsed) \<Rightarrow> \<not> is_list parsed | _ \<Rightarrow> False")
  case True
  then have "save_message_to_shared_file m fs = fs"
    by (auto simp: save_message_to_shared_file_def Let_def
        split: option.splits file_content.splits json.splits)
  then show ?thesis by simp
next
  case False
  with assms have w: "on_write fs \<noteq> Completes" by (simp add: store_write_fails_def)
  from False have "\<exists>data. save_message_to_shared_file m fs = write_back data fs"
    by (auto simp: save_message_to_shared_file_def Let_def dest!: is_listD
        split: option.splits file_content.splits)
  then obtain data where "save_message_to_shared_file m fs = write_back data fs" ..
  with w show ?thesis by (cases "on_write fs") (simp_all add: write_back_def)
qed

lemma last_push_capped: "push_capped v m \<noteq> [] \<and> last (push_capped v m) = m"
proof (cases "100 < length (v @ [m])")
  case True
  then have "tl (v @ [m]) \<noteq> []" by (cases v) auto
  then have "last (tl (v @ [m])) = last (v @ [m])" by (rule last_tl[OF disjI2, rotated]) 
  with True \<open>tl (v @ [m]) \<noteq> []\<close> show ?thesis by (simp add: push_capped_def)
next
  case False
  then show ?thesis by (simp add: push_capped_def)
qed

lemma add_message_result:
  "add_message h fs d now =
     (h\<lparr>message_counter := message_counter h + 1,
        processed_messages :=
          push_capped (processed_messages h) (add_message_data (message_counter h + 1) d now),
        successful_messages := successful_messages h + 1\<rparr>,
      save_message_to_shared_file (add_message_data (message_counter h + 1) d now) fs,
      add_message_data (message_counter h + 1) d now)"
  by (simp add: add_message_def Let_def push_capped_def)

lemma simulate_outgoing_message_result:
  "simulate_outgoing_message h fs d t now =
     (h\<lparr>message_counter := message_counter h + 1,
        processed_messages :=
          push_capped (processed_messages h) (outgoing_message_data (message_counter h + 1) d t now),
        successful_messages := successful_messages h + 1\<rparr>,
      save_message_to_shared_file (outgoing_message_data (message_counter h + 1) d t now) fs,
      outgoing_message_data (message_counter h + 1) d t now)"
  by (simp add: simulate_outgoing_message_def Let_def push_capped_def)

lemma handle_sms_request_port80_accepts:
  assumes "extract_sms_parameters unquote qp = Some (a, b, c, d, e)" and "py_any [a, b, c, d, e]"
  shows "handle_sms_request_port80 unquote h fs qp now =
       (fst (add_message h fs (port80_sms_data a b c d e qp now) now),
        fst (snd (add_message h fs (port80_sms_data a b c d e qp now) now)),
        port80_success_response a b c d e now)"
  using assms
  by (simp add: handle_sms_request_port80_def Let_def split: prod.splits)

lemma handle_sms_submit_request_accepts:
  assumes "extract_sms_parameters unquote qp = Some (a, b, c, d, e)" and "py_any [a, b, c, d, e]"
  shows "handle_sms_submit_request unquote h fs qp now =
       (fst (add_message h fs (http_sms_data a b c d e qp now) now),
        fst (snd (add_message h fs (http_sms_data a b c d e qp now) now)),
        port80_success_response a b c d e now)"
  using assms
  by (simp add: handle_sms_submit_request_def Let_def split: prod.splits)

lemma handle_simulate_outgoing_request_accepts:
  assumes "query_first qp ''destination'' [''+5511999999999''] = Some d"
    and "query_first qp ''message'' [''Mensagem de teste do simulador''] = Some t"
  shows "handle_simulate_outgoing_request unquote h fs qp now =
       (fst (simulate_outgoing_message h fs (unquote d) (unquote t) now),
        fst (snd (simulate_outgoing_message h fs (unquote d) (unquote t) now)),
        send_json_response 200
          (JDict [(''status'', JStr ''OK''),
                  (''message'', JStr ''Outgoing message simulated successfully''),
                  (''message_id'', JInt (message_counter h + 1)),
                  (''destination'', JStr d),
                  (''text'', JStr t)]))"
  using assms
  by (simp add: handle_simulate_outgoing_request_def Let_def simulate_outgoing_message_result
        outgoing_message_data_def dict_get_def)

text \<open>
  Claim C6. When the store write fails, \<^verbatim>\<open>add_message\<close> and
  \<^verbatim>\<open>simulate_outgoing_message\<close> return normally and the record they return is in the
  local view, as its last element; the file is as it was, or holds what an interrupted
  write left of it. The port-80 listener answers a submission that passed validation with
  200 and status \<^verbatim>\<open>success\<close>, and the outgoing simulation answers 200 and \<^verbatim>\<open>OK\<close>, in
  both cases with the new record in the view.
\<close>

theorem degraded_write:
  assumes "store_write_fails fs"
  shows "(fst (snd (add_message h fs sms_data now)) = fs
          \<or> (\<exists>left. on_write fs = Interrupted left
                \<and> fst (snd (add_message h fs sms_data now)) = fs\<lparr>content := Some left\<rparr>))
       \<and> snd (snd (add_message h fs sms_data now)) \<in> set (processed_messages (fst (add_message h fs sms_data now)))
       \<and> last (processed_messages (fst (add_message h fs sms_data now))) =
           snd (snd (add_message h fs sms_data now))
       \<and> (fst (snd (simulate_outgoing_message h fs dest_msisdn msg_text now)) = fs
          \<or> (\<exists>left. on_write fs = Interrupted left
                \<and> fst (snd (simulate_outgoing_message h fs dest_msisdn msg_text now)) =
                    fs\<lparr>content := Some left\<rparr>))
       \<and> snd (snd (simulate_outgoing_message h fs dest_msisdn msg_text now))
           \<in> set (processed_messages (fst (simulate_outgoing_message h fs dest_msisdn msg_text now)))
       \<and> last (processed_messages (fst (simulate_outgoing_message h fs dest_msisdn msg_text now))) =
           snd (snd (simulate_outgoing_message h fs dest_msisdn msg_text now))
       \<and> (startswith path ''/cgi-bin/smshandler.pl''
            \<and> extract_sms_parameters unquote qp = Some (a, b, c, d, e) \<and> py_any [a, b, c, d, e] \<longrightarrow>
            status_code (snd (snd (http_do_GET unquote h fs path qp now))) = 200
            \<and> msg_get (body (snd (snd (http_do_GET unquote h fs path qp now)))) ''status'' =
                Inr (JStr ''success'')
            \<and> last (processed_messages (fst (http_do_GET unquote h fs path qp now))) =
                add_message_data (message_counter h + 1) (http_sms_data a b c d e qp now) now)
       \<and> (query_first qp ''destination'' [''+5511999999999''] = Some dst
            \<and> query_first qp ''message'' [''Mensagem de teste do simulador''] = Some mtext \<longrightarrow>
            status_code (snd (snd (handle_simulate_outgoing_request unquote h fs qp now))) = 200
            \<and> msg_get (body (snd (snd (handle_simulate_outgoing_request unquote h fs qp now)))) ''status'' =
                Inr (JStr ''OK'')
            \<and> last (processed_messages (fst (handle_simulate_outgoing_request unquote h fs qp now))) =
                outgoing_message_data (message_counter h + 1) (unquote dst) (unquote mtext) now)"
proof -
  note sv = save_fails [OF assms]
  note lp = last_push_capped
  have in_view: "m \<in> set (push_capped v m)" for v m
    using lp [of v m] last_in_set by metis
  have add: "(fst (snd (add_message h fs sms_data now)) = fs
          \<or> (\<exists>left. on_write fs = Interrupted left
                \<and> fst (snd (add_message h fs sms_data now)) = fs\<lparr>content := Some left\<rparr>))
       \<and> snd (snd (add_message h fs sms_data now)) \<in> set (processed_messages (fst (add_message h fs sms_data now)))
       \<and> last (processed_messages (fst (add_message h fs sms_data now))) =
           snd (snd (add_message h fs sms_data now))" for sms_data
    using sv [of "add_message_data (message_counter h + 1) sms_data now"]
    by (simp add: add_message_result lp in_view)
  have sim: "(fst (snd (simulate_outgoing_message h fs dest_msisdn msg_text now)) = fs
          \<or> (\<exists>left. on_write fs = Interrupted left
                \<and> fst (snd (simulate_outgoing_message h fs dest_msisdn msg_text now)) =
                    fs\<lparr>content := Some left\<rparr>))
       \<and> snd (snd (simulate_outgoing_message h fs dest_msisdn msg_text now))
           \<in> set (processed_messages (fst (simulate_outgoing_message h fs dest_msisdn msg_text now)))
       \<and> last (processed_messages (fst (simulate_outgoing_message h fs dest_msisdn msg_text now))) =
           snd (snd (simulate_outgoing_message h fs dest_msisdn msg_text now))" for dest_msisdn msg_text
    using sv [of "outgoing_message_data (message_counter h + 1) dest_msisdn msg_text now"]
    by (simp add: simulate_outgoing_message_result lp in_view)
  have p80: "status_code (snd (snd (http_do_GET unquote h fs path qp now))) = 200
            \<and> msg_get (body (snd (snd (http_do_GET unquote h fs path qp now)))) ''status'' =
                Inr (JStr ''success'')
            \<and> last (processed_messages (fst (http_do_GET unquote h fs path qp now))) =
                add_message_data (message_counter h + 1) (http_sms_data a b c d e qp now) now"
    if r: "startswith path ''/cgi-bin/smshandler.pl''"
      and x: "extract_sms_parameters unquote qp = Some (a, b, c, d, e)" "py_any [a, b, c, d, e]"
  proof -
    from r have "http_do_GET unquote h fs path qp now = handle_sms_submit_request unquote h fs qp now"
      by (simp add: http_do_GET_def)
    then show ?thesis
      by (simp add: handle_sms_submit_request_accepts [OF x] port80_success_response_def
            send_json_response_def dict_get_def add_message_result lp)
  qed
  have out: "status_code (snd (snd (handle_simulate_outgoing_request unquote h fs qp now))) = 200
            \<and> msg_get (body (snd (snd (handle_simulate_outgoing_request unquote h fs qp now)))) ''status'' =
                Inr (JStr ''OK'')
            \<and> last (processed_messages (fst (handle_simulate_outgoing_request unquote h fs qp now))) =
                outgoing_message_data (message_counter h + 1) (unquote dst) (unquote mtext) now"
    if "query_first qp ''destination'' [''+5511999999999''] = Some dst"
      and "query_first qp ''message'' [''Mensagem de teste do simulador''] = Some mtext"
    by (simp add: handle_simulate_outgoing_request_accepts [OF that] send_json_response_def
          dict_get_def simulate_outgoing_message_result lp)
  from add [of sms_data] sim [of dest_msisdn msg_text] p80 out show ?thesis by blast
qed

text \<open>
  An instance: a file holding one record, on a disk so full that the write is cut off
  after the file was truncated. The record that was in the file is lost; the submission
  with user data only and the outgoing simulation with the default destination and text
  are answered 200, and their records are in the view.
\<close>

theorem degraded_write_witness:
  "store_write_fails full_disk_store
   \<and> startswith ''/cgi-bin/smshandler.pl?sms_submit_ud=hello'' ''/cgi-bin/smshandler.pl''
   \<and> extract_sms_parameters (\<lambda>s. s) user_data_query = Some ([], ''hello'', [], [], [])
   \<and> py_any [[], ''hello'', [], [], []]
   \<and> query_first user_data_query ''destination'' [''+5511999999999''] = Some ''+5511999999999''
   \<and> query_first user_data_query ''message'' [''Mensagem de teste do simulador''] =
        Some ''Mensagem de teste do simulador''
   \<and> content (fst (snd (add_message (SMSHandler_init []) full_disk_store [] []))) = Some Corrupt
   \<and> last (processed_messages (fst (add_message (SMSHandler_init []) full_disk_store [] []))) =
        snd (snd (add_message (SMSHandler_init []) full_disk_store [] []))
   \<and> status_code (snd (snd (http_do_GET (\<lambda>s. s) (SMSHandler_init []) full_disk_store
        ''/cgi-bin/smshandler.pl?sms_submit_ud=hello'' user_data_query []))) = 200
   \<and> last (processed_messages (fst (http_do_GET (\<lambda>s. s) (SMSHandler_init []) full_disk_store
        ''/cgi-bin/smshandler.pl?sms_submit_ud=hello'' user_data_query []))) =
       add_message_data 1 (http_sms_data [] ''hello'' [] [] [] user_data_query []) []
   \<and> status_code (snd (snd (handle_simulate_outgoing_request (\<lambda>s. s) (SMSHandler_init [])
        full_disk_store user_data_query []))) = 200
   \<and> last (processed_messages (fst (handle_simulate_outgoing_request (\<lambda>s. s)
        (SMSHandler_init []) full_disk_store user_data_query []))) =
       outgoing_message_data 1 ''+5511999999999'' ''Mensagem de teste do simulador'' []"
proof -
  have f: "store_write_fails full_disk_store"
    by (simp add: store_write_fails_def full_disk_store_def)
  have r: "startswith ''/cgi-bin/smshandler.pl?sms_submit_ud=hello'' ''/cgi-bin/smshandler.pl''"
    by (simp add: startswith_def)
  have e: "extract_sms_parameters (\<lambda>s. s) user_data_query = Some ([], ''hello'', [], [], [])"
    by (simp add: extract_sms_parameters_def query_first_def user_data_query_def)
  have p: "py_any [[], ''hello'', [], [], []]"
    by (simp add: py_any_def)
  have d: "query_first user_data_query ''destination'' [''+5511999999999''] = Some ''+5511999999999''"
    by (simp add: query_first_def user_data_query_def)
  have m: "query_first user_data_query ''message'' [''Mensagem de teste do simulador''] =
        Some ''Mensagem de teste do simulador''"
    by (simp add: query_first_def user_data_query_def)
  have c: "message_counter (SMSHandler_init []) + 1 = 1"
    by (simp add: SMSHandler_init_def)
  have lost: "content (fst (snd (add_message (SMSHandler_init []) full_disk_store [] []))) = Some Corrupt"
    by (simp add: add_message_result save_message_to_shared_file_def write_back_def
          full_disk_store_def Let_def)
  note t = degraded_write [OF f, where h = "SMSHandler_init []" and unquote = "\<lambda>s. s"
      and qp = user_data_query and now = "[]" and a = "[]" and b = "''hello''" and c = "[]"
      and d = "[]" and e = "[]" and dst = "''+5511999999999''"
      and mtext = "''Mensagem de teste do simulador''" and sms_data = "[]"
      and path = "''/cgi-bin/smshandler.pl?sms_submit_ud=hello''"]
  from t have t0:
    "last (processed_messages (fst (add_message (SMSHandler_init []) full_disk_store [] []))) =
        snd (snd (add_message (SMSHandler_init []) full_disk_store [] []))"
    by blast
  from t r e p have t1:
    "status_code (snd (snd (http_do_GET (\<lambda>s. s) (SMSHandler_init []) full_disk_store
        ''/cgi-bin/smshandler.pl?sms_submit_ud=hello'' user_data_query []))) = 200"
    "last (processed_messages (fst (http_do_GET (\<lambda>s. s) (SMSHandler_init []) full_disk_store
        ''/cgi-bin/smshandler.pl?sms_submit_ud=hello'' user_data_query []))) =
       add_message_data 1 (http_sms_data [] ''hello'' [] [] [] user_data_query []) []"
    unfolding c by blast+
  from t d m have t2:
    "status_code (snd (snd (handle_simulate_outgoing_request (\<lambda>s. s) (SMSHandler_init [])
        full_disk_store user_data_query []))) = 200"
    "last (processed_messages (fst (handle_simulate_outgoing_request (\<lambda>s. s)
        (SMSHandler_init []) full_disk_store user_data_query []))) =
       outgoing_message_data 1 ''+5511999999999'' ''Mensagem de teste do simulador'' []"
    unfolding c by blast+
  from f r e p d m lost t0 t1 t2 show ?thesis by (intro conjI)
qed

section \<open>Validation of a submission\<close>

lemma parsed_query_first:
  assumes "parsed_query qp"
  shows "\<exists>v. query_first qp k [[]] = Some v"
proof (cases "map_of qp k")
  case None
  then show ?thesis by (simp add: query_first_def)
next
  case (Some vs)
  then have "(k, vs) \<in> set qp" by (rule map_of_SomeD)
  with assms have "vs \<noteq> []" by (auto simp: parsed_query_def)
  with Some show ?thesis by (cases vs) (simp_all add: query_first_def)
qed

lemma all_blank_iff:
  "(\<forall>k \<in> set recognized_fields. field_blank qp k) \<longleftrightarrow>
     field_blank qp ''submit'' \<and> field_blank qp ''sms_submit_ud'' \<and> field_blank qp ''sms_submit_da''
     \<and> field_blank qp ''sms_submit_pid'' \<and> field_blank qp ''sms_submit_dcs''"
  by (simp add: recognized_fields_def)

lemma add_message_creates:
  "\<exists>m. msg_id_key m = Inr (KNum (message_counter h + 1))
      \<and> processed_messages (fst (add_message h fs d now)) = push_capped (processed_messages h) m
      \<and> fst (snd (add_message h fs d now)) = save_message_to_shared_file m fs"
  by (rule exI [of _ "add_message_data (message_counter h + 1) d now"])
     (simp add: add_message_result add_message_data_def msg_id_key_def dict_get_def)

lemma process_sms_creates:
  "\<exists>m. msg_id_key m = Inr (KNum (message_counter h + 1))
      \<and> processed_messages (fst (process_sms h a ms now)) = push_capped (processed_messages h) m"
  by (rule exI [of _ "new_record (ProcessSms a ms now) (message_counter h + 1)"])
     (simp add: process_sms_view process_sms_message_data_def msg_id_key_def dict_get_def)

text \<open>
  Claim C7, as the code has it. For a query as \<^verbatim>\<open>parse_qs\<close> returns it, and an
  \<^verbatim>\<open>unquote\<close> that maps no non-empty string to the empty one:
  \<^verbatim>\<open>_handle_sms_request_port80\<close> answers 400 exactly when all five recognised
  parameters are blank, and then changes neither the handler nor the file; otherwise it
  answers 200, and the record with the next id is appended to the view and handed to the
  store write. \<^verbatim>\<open>_handle_sms_request\<close> looks at \<^verbatim>\<open>submit\<close> only: it answers 400
  exactly when \<^verbatim>\<open>submit\<close> is blank, leaving the handler as it was, and otherwise answers
  200 with the record appended to the view.
\<close>

theorem ingestion_validation:
  assumes "parsed_query qp" and "\<forall>s. s \<noteq> [] \<longrightarrow> unquote s \<noteq> []"
  shows "(status_code (snd (snd (handle_sms_request_port80 unquote h fs qp now))) = 400
            \<longleftrightarrow> (\<forall>k \<in> set recognized_fields. field_blank qp k))
       \<and> ((\<forall>k \<in> set recognized_fields. field_blank qp k) \<longrightarrow>
            fst (handle_sms_request_port80 unquote h fs qp now) = h
            \<and> fst (snd (handle_sms_request_port80 unquote h fs qp now)) = fs)
       \<and> (\<not> (\<forall>k \<in> set recognized_fields. field_blank qp k) \<longrightarrow>
            status_code (snd (snd (handle_sms_request_port80 unquote h fs qp now))) = 200
            \<and> (\<exists>m. msg_id_key m = Inr (KNum (message_counter h + 1))
                 \<and> processed_messages (fst (handle_sms_request_port80 unquote h fs qp now)) =
                     push_capped (processed_messages h) m
                 \<and> fst (snd (handle_sms_request_port80 unquote h fs qp now)) =
                     save_message_to_shared_file m fs))
       \<and> (\<exists>h1 resp. handle_sms_request parse_hex_string h qp now = Inr (h1, resp)
            \<and> (status_code resp = 400 \<longleftrightarrow> field_blank qp ''submit'')
            \<and> (field_blank qp ''submit'' \<longrightarrow> h1 = h)
            \<and> (\<not> field_blank qp ''submit'' \<longrightarrow>
                 status_code resp = 200
                 \<and> (\<exists>m. msg_id_key m = Inr (KNum (message_counter h + 1))
                      \<and> processed_messages h1 = push_capped (processed_messages h) m)))"
proof -
  from parsed_query_first [OF assms(1)] obtain s ud da pid dcs msisdn where q:
    "query_first qp ''submit'' [[]] = Some s"
    "query_first qp ''sms_submit_ud'' [[]] = Some ud"
    "query_first qp ''sms_submit_da'' [[]] = Some da"
    "query_first qp ''sms_submit_pid'' [[]] = Some pid"
    "query_first qp ''sms_submit_dcs'' [[]] = Some dcs"
    "query_first qp ''MSISDN'' [[]] = Some msisdn"
    by metis
  let ?s = "if s \<noteq> [] then unquote s else []"
  have ex: "extract_sms_parameters unquote qp = Some (?s, ud, da, pid, dcs)"
    by (simp add: extract_sms_parameters_def q)
  have blank: "(\<forall>k \<in> set recognized_fields. field_blank qp k) \<longleftrightarrow>
      s = [] \<and> ud = [] \<and> da = [] \<and> pid = [] \<and> dcs = []"
    unfolding all_blank_iff by (simp add: field_blank_def q)
  have any: "py_any [?s, ud, da, pid, dcs] \<longleftrightarrow> \<not> (s = [] \<and> ud = [] \<and> da = [] \<and> pid = [] \<and> dcs = [])"
    using assms(2) by (auto simp: py_any_def)
  have port80: "(status_code (snd (snd (handle_sms_request_port80 unquote h fs qp now))) = 400
            \<longleftrightarrow> (\<forall>k \<in> set recognized_fields. field_blank qp k))
       \<and> ((\<forall>k \<in> set recognized_fields. field_blank qp k) \<longrightarrow>
            fst (handle_sms_request_port80 unquote h fs qp now) = h
            \<and> fst (snd (handle_sms_request_port80 unquote h fs qp now)) = fs)
       \<and> (\<not> (\<forall>k \<in> set recognized_fields. field_blank qp k) \<longrightarrow>
            status_code (snd (snd (handle_sms_request_port80 unquote h fs qp now))) = 200
            \<and> (\<exists>m. msg_id_key m = Inr (KNum (message_counter h + 1))
                 \<and> processed_messages (fst (handle_sms_request_port80 unquote h fs qp now)) =
                     push_capped (processed_messages h) m
                 \<and> fst (snd (handle_sms_request_port80 unquote h fs qp now)) =
                     save_message_to_shared_file m fs))"
  proof (cases "py_any [?s, ud, da, pid, dcs]")
    case True
    note r = handle_sms_request_port80_accepts [OF ex True, of h fs now]
    from True any blank have nb: "\<not> (\<forall>k \<in> set recognized_fields. field_blank qp k)" by simp
    have c1: "status_code (snd (snd (handle_sms_request_port80 unquote h fs qp now))) = 200"
      by (simp add: r port80_success_response_def send_json_response_def)
    then have c0: "status_code (snd (snd (handle_sms_request_port80 unquote h fs qp now))) \<noteq> 400"
      by simp
    have c3: "\<exists>m. msg_id_key m = Inr (KNum (message_counter h + 1))
                 \<and> processed_messages (fst (handle_sms_request_port80 unquote h fs qp now)) =
                     push_capped (processed_messages h) m
                 \<and> fst (snd (handle_sms_request_port80 unquote h fs qp now)) =
                     save_message_to_shared_file m fs"
      using add_message_creates [of h fs "port80_sms_data ?s ud da pid dcs qp now" now]
      by (simp only: r fst_conv snd_conv)
    from nb c0 c1 c3 show ?thesis by blast
  next
    case False
    then have r: "handle_sms_request_port80 unquote h fs qp now =
        (h, fs, send_error_response 400 ''Missing SMS parameters'' now)"
      by (simp add: handle_sms_request_port80_def ex)
    from False any blank have "\<forall>k \<in> set recognized_fields. field_blank qp k" by simp
    then show ?thesis by (simp add: r send_error_response_def)
  qed
  have plain: "\<exists>h1 resp. handle_sms_request parse_hex_string h qp now = Inr (h1, resp)
            \<and> (status_code resp = 400 \<longleftrightarrow> field_blank qp ''submit'')
            \<and> (field_blank qp ''submit'' \<longrightarrow> h1 = h)
            \<and> (\<not> field_blank qp ''submit'' \<longrightarrow>
                 status_code resp = 200
                 \<and> (\<exists>m. msg_id_key m = Inr (KNum (message_counter h + 1))
                      \<and> processed_messages h1 = push_capped (processed_messages h) m))"
  proof (cases "s = []")
    case True
    then have "handle_sms_request parse_hex_string h qp now =
        Inr (h, send_error_response 400 ''Missing submit parameter'' now)"
      by (simp add: handle_sms_request_def q)
    with True show ?thesis by (simp add: field_blank_def q send_error_response_def)
  next
    case False
    obtain h1 r1 where p: "process_sms h (parse_hex_string s) msisdn now = (h1, r1)"
      by (cases "process_sms h (parse_hex_string s) msisdn now")
    with False have "handle_sms_request parse_hex_string h qp now =
        Inr (h1, send_json_response 200
                   (JDict [(''status'', JStr ''OK''),
                           (''message'', JStr ''SMS received and processed''),
                           (''message_id'', dict_get r1 ''message_id'' JNull),
                           (''response_code'', JStr ''00'')]))"
      by (simp add: handle_sms_request_def q Let_def)
    moreover from p process_sms_creates [of h "parse_hex_string s" msisdn now]
    have "\<exists>m. msg_id_key m = Inr (KNum (message_counter h + 1))
                      \<and> processed_messages h1 = push_capped (processed_messages h) m"
      by simp
    ultimately show ?thesis using False
      by (simp add: field_blank_def q send_json_response_def)
  qed
  from port80 plain show ?thesis by blast
qed

text \<open>
  Instances: a query carrying user data only, and the empty query.
\<close>

theorem ingestion_validation_witness:
  "parsed_query user_data_query
   \<and> field_blank user_data_query ''submit''
   \<and> status_code (snd (snd (handle_sms_request_port80 (\<lambda>s. s) (SMSHandler_init [])
        absent_store user_data_query []))) = 200
   \<and> (\<exists>resp. handle_sms_request (\<lambda>s. []) (SMSHandler_init []) user_data_query [] =
          Inr (SMSHandler_init [], resp) \<and> status_code resp = 400)
   \<and> parsed_query []
   \<and> status_code (snd (snd (handle_sms_request_port80 (\<lambda>s. s) (SMSHandler_init [])
        absent_store [] []))) = 400
   \<and> fst (handle_sms_request_port80 (\<lambda>s. s) (SMSHandler_init []) absent_store [] []) =
        SMSHandler_init []
   \<and> fst (snd (handle_sms_request_port80 (\<lambda>s. s) (SMSHandler_init []) absent_store [] [])) =
        absent_store"
proof -
  have u: "\<forall>s::string. s \<noteq> [] \<longrightarrow> (\<lambda>s. s) s \<noteq> []" by simp
  have p1: "parsed_query user_data_query"
    by (simp add: parsed_query_def user_data_query_def)
  have p2: "parsed_query []"
    by (simp add: parsed_query_def)
  have b1: "field_blank user_data_query ''submit''"
    by (simp add: field_blank_def query_first_def user_data_query_def)
  have nb: "\<not> (\<forall>k \<in> set recognized_fields. field_blank user_data_query k)"
    by (simp add: recognized_fields_def field_blank_def query_first_def user_data_query_def)
  have ab: "\<forall>k \<in> set recognized_fields. field_blank [] k"
    by (simp add: recognized_fields_def field_blank_def query_first_def)
  note t1 = ingestion_validation [OF p1 u, of "SMSHandler_init []" absent_store "[]" "\<lambda>s. []"]
  note t2 = ingestion_validation [OF p2 u, of "SMSHandler_init []" absent_store "[]" "\<lambda>s. []"]
  from t1 nb have a1: "status_code (snd (snd (handle_sms_request_port80 (\<lambda>s. s) (SMSHandler_init [])
        absent_store user_data_query []))) = 200"
    by blast
  from t1 b1 have a2: "\<exists>resp. handle_sms_request (\<lambda>s. []) (SMSHandler_init []) user_data_query [] =
          Inr (SMSHandler_init [], resp) \<and> status_code resp = 400"
    by blast
  from t2 ab have a3: "status_code (snd (snd (handle_sms_request_port80 (\<lambda>s. s) (SMSHandler_init [])
        absent_store [] []))) = 400"
    by blast
  from t2 ab have a4: "fst (handle_sms_request_port80 (\<lambda>s. s) (SMSHandler_init []) absent_store [] []) =
        SMSHandler_init []"
    "fst (snd (handle_sms_request_port80 (\<lambda>s. s) (SMSHandler_init []) absent_store [] [])) =
        absent_store"
    by blast+
  from p1 b1 a1 a2 p2 a3 a4 show ?thesis by (intro conjI)
qed

text \<open>
  Claim C7 as stated fails on \<^verbatim>\<open>_handle_sms_request\<close>: a query whose only parameter is
  a populated \<^verbatim>\<open>sms_submit_ud\<close> is answered 400 and no record is created.
\<close>

theorem ingestion_validation_counterexample:
  "\<not> field_blank user_data_query ''sms_submit_ud''
   \<and> handle_sms_request (\<lambda>s. [(''raw_data'', JStr s)]) (SMSHandler_init []) user_data_query [] =
       Inr (SMSHandler_init [], send_error_response 400 ''Missing submit parameter'' [])"
  by (simp add: field_blank_def query_first_def user_data_query_def handle_sms_request_def)

section \<open>The two layouts of the shared file\<close>

text \<open>
  Claim C3 on the code. The port-80 listener writes a dictionary; the simulator reads and
  writes a bare list. A submission that the port-80 listener answers with 200 is not read
  back by \<^verbatim>\<open>load_shared_messages\<close>: the loop runs over the keys of the dictionary and
  raises at the first, so the view stays empty. The simulator can no longer persist a
  record into that file. In the other direction, the simulator's file is read back by the
  simulator, and the port-80 listener cannot append to it: its submission is dropped.
\<close>

theorem layout_mismatch:
  "status_code (snd (http80_handle_sms_request absent_store submit_query
       ''20261104_101500_000000'' ''2026-11-04T10:15:00'')) = 200
   \<and> store_records port80_written_store =
       [JStr ''messages'', JStr ''total_count'', JStr ''last_updated'']
   \<and> load_shared_messages (SMSHandler_init []) port80_written_store = SMSHandler_init []
   \<and> processed_messages (fst (handle_messages_request (SMSHandler_init [])
        port80_written_store [])) = []
   \<and> save_message_to_shared_file (add_message_data 1 [] []) port80_written_store =
       port80_written_store
   \<and> content simulator_written_store = Some (Doc (JList [add_message_data 1 [] []]))
   \<and> processed_messages (load_shared_messages (SMSHandler_init []) simulator_written_store) =
       [add_message_data 1 [] []]
   \<and> fst (http80_handle_sms_request simulator_written_store submit_query
       ''20261104_101500_000000'' ''2026-11-04T10:15:00'') = simulator_written_store"
  by code_simp

section \<open>Clearing\<close>

text \<open>
  Claim C8 on the code. After one \<^verbatim>\<open>add_message\<close>, the clear handler answers 200 and
  leaves an empty view and zero counters; the file still holds the record, and the next
  message-list request brings it back into the view.
\<close>

theorem clear_leaves_store:
  "status_code (snd (handle_clear_messages (fst after_one_message) [])) = 200
   \<and> processed_messages (fst (handle_clear_messages (fst after_one_message) [])) = []
   \<and> message_counter (fst (handle_clear_messages (fst after_one_message) [])) = 0
   \<and> successful_messages (fst (handle_clear_messages (fst after_one_message) [])) = 0
   \<and> failed_messages (fst (handle_clear_messages (fst after_one_message) [])) = 0
   \<and> processed_messages (fst (handle_messages_request
        (fst (handle_clear_messages (fst after_one_message) [])) (snd after_one_message) [])) =
       [add_message_data 1 [] []]"
  by code_simp

text \<open>
  What the clear does achieve, and why the records return: reconciling after a clear is
  reconciling from a fresh handler, against a file the clear has not touched.
\<close>

lemma clear_messages_resets:
  "processed_messages (clear_messages h) = [] \<and> message_counter (clear_messages h) = 0
   \<and> successful_messages (clear_messages h) = 0 \<and> failed_messages (clear_messages h) = 0
   \<and> clear_messages (clear_messages h) = clear_messages h"
  by (simp add: clear_messages_def)

lemma merge_view_only:
  assumes "processed_messages h = processed_messages h'"
  shows "merge_shared_messages h fs = merge_shared_messages h' fs"
  unfolding merge_shared_messages_def assms ..

lemma clear_then_reconcile:
  "processed_messages (load_shared_messages (clear_messages h) fs) =
     processed_messages (load_shared_messages (SMSHandler_init t0) fs)"
proof -
  obtain w r where m: "merge_shared_messages (SMSHandler_init t0) fs = (w, r)"
    by (cases "merge_shared_messages (SMSHandler_init t0) fs")
  have "processed_messages (clear_messages h) = processed_messages (SMSHandler_init t0)"
    by (simp add: clear_messages_def SMSHandler_init_def)
  from merge_view_only [OF this, of fs] m
  have "merge_shared_messages (clear_messages h) fs = (w, r)" by simp
  from load_view [OF this] load_view [OF m] show ?thesis by simp
qed

end
